theory Spec2Isabelle
  imports Complex_Main
begin

section \<open>JavaScript numbers\<close>

text \<open>
  A Number is an IEEE 754 binary64 value: a finite double other than the negative zero,
  given by its exact rational value (\<open>Num 0\<close> is the positive zero), the negative zero, an
  infinity, or NaN. Every operation below rounds its exact result to the nearest double.
  A \<open>Num x\<close> whose \<open>x\<close> is no double stands for no Number; what is proved of every
  \<open>Num x\<close> holds of the doubles among them.
\<close>

datatype jsnum = Num rat | NegZero | PosInf | NegInf | NaN

text \<open>The binary exponent of a positive rational: \<open>2 ^ ilog2 x \<le> x < 2 ^ (ilog2 x + 1)\<close>.\<close>

function ilog2 :: "rat \<Rightarrow> int" where
  "ilog2 x = (if x \<le> 0 then 0
              else if x < 1 then ilog2 (2 * x) - 1
              else if 2 \<le> x then ilog2 (x / 2) + 1
              else 0)"
  by pat_completeness auto
termination
proof (relation "measure (\<lambda>x. if x < 1 then nat \<lceil>1 / x\<rceil> else nat \<lfloor>x\<rfloor>)")
  show "wf (measure (\<lambda>x::rat. if x < 1 then nat \<lceil>1 / x\<rceil> else nat \<lfloor>x\<rfloor>))"
    by simp
next
  fix x :: rat
  assume a: "\<not> x \<le> 0" "x < 1"
  show "(2 * x, x) \<in> measure (\<lambda>x. if x < 1 then nat \<lceil>1 / x\<rceil> else nat \<lfloor>x\<rfloor>)"
  proof (cases "2 * x < 1")
    case True
    have "1 / (2 * x) \<le> 1 / x - 1"
      using a True by (simp add: field_simps)
    then have "\<lceil>1 / (2 * x)\<rceil> \<le> \<lceil>1 / x - 1\<rceil>"
      by (rule ceiling_mono)
    also have "\<dots> = \<lceil>1 / x\<rceil> - 1"
      by simp
    finally have "\<lceil>1 / (2 * x)\<rceil> < \<lceil>1 / x\<rceil>"
      by simp
    moreover have "0 < \<lceil>1 / x\<rceil>"
      using a by simp
    ultimately show ?thesis
      using a True by simp
  next
    case False
    then have "\<lfloor>2 * x\<rfloor> = 1"
      using a by (simp add: floor_eq_iff)
    moreover have "1 < 1 / x"
      using a by (simp add: field_simps)
    then have "1 < \<lceil>1 / x\<rceil>"
      by (simp add: less_ceiling_iff)
    ultimately show ?thesis
      using a False by simp
  qed
next
  fix x :: rat
  assume a: "\<not> x \<le> 0" "\<not> x < 1" "2 \<le> x"
  have "\<lfloor>x / 2\<rfloor> \<le> \<lfloor>x - 1\<rfloor>"
    using a by (intro floor_mono) simp
  then have "\<lfloor>x / 2\<rfloor> < \<lfloor>x\<rfloor>"
    by simp
  moreover have "0 < \<lfloor>x\<rfloor>"
    using a by simp
  ultimately show "(x / 2, x) \<in> measure (\<lambda>x. if x < 1 then nat \<lceil>1 / x\<rceil> else nat \<lfloor>x\<rfloor>)"
    using a by simp
qed

declare ilog2.simps [simp del]

text \<open>The nearest integer, a tie going to the even one.\<close>

definition round_even :: "rat \<Rightarrow> int" where
  "round_even z =
    (let f = \<lfloor>z\<rfloor>; d = z - of_int f
     in if d < 1 / 2 then f else if 1 / 2 < d then f + 1 else if even f then f else f + 1)"

text \<open>
  The spacing of the doubles around \<open>x\<close>: a double has 53 significant bits, and its
  exponent is at least \<open>-1022\<close> (below that the doubles are subnormal and evenly spaced).
\<close>

definition quantum :: "rat \<Rightarrow> rat" where
  "quantum x = 2 powi (max (ilog2 \<bar>x\<bar>) (- 1022) - 52)"

text \<open>
  The double an exact result rounds to (round to nearest, ties to even): a magnitude
  that rounds to \<open>2 ^ 1024\<close> overflows to an infinity, one that rounds to nothing keeps its
  sign on the zero.
\<close>

definition round_double :: "rat \<Rightarrow> jsnum" where
  "round_double x =
    (let q = quantum x; r = of_int (round_even (\<bar>x\<bar> / q)) * q
     in if 2 powi 1024 \<le> r then (if x < 0 then NegInf else PosInf)
        else if r = 0 then (if x < 0 then NegZero else Num 0)
        else Num (if x < 0 then - r else r))"

text \<open>The sign bit, the two zeros, the two infinities, and the value of a finite number.\<close>

fun is_neg :: "jsnum \<Rightarrow> bool" where
  "is_neg (Num x) = (x < 0)"
| "is_neg NegZero = True"
| "is_neg NegInf = True"
| "is_neg PosInf = False"
| "is_neg NaN = False"

definition is_zero :: "jsnum \<Rightarrow> bool" where
  "is_zero n = (n = Num 0 \<or> n = NegZero)"

definition is_inf :: "jsnum \<Rightarrow> bool" where
  "is_inf n = (n = PosInf \<or> n = NegInf)"

definition signed_zero :: "bool \<Rightarrow> jsnum" where
  "signed_zero neg = (if neg then NegZero else Num 0)"

definition signed_inf :: "bool \<Rightarrow> jsnum" where
  "signed_inf neg = (if neg then NegInf else PosInf)"

fun finite_value :: "jsnum \<Rightarrow> rat" where
  "finite_value (Num x) = x"
| "finite_value n = 0"

text \<open>\<open>a * b\<close>, \<open>a / b\<close> and \<open>a + b\<close> on Numbers.\<close>

definition fmul :: "jsnum \<Rightarrow> jsnum \<Rightarrow> jsnum" where
  "fmul a b =
    (if a = NaN \<or> b = NaN then NaN
     else if (is_inf a \<and> is_zero b) \<or> (is_zero a \<and> is_inf b) then NaN
     else if is_inf a \<or> is_inf b then signed_inf (is_neg a \<noteq> is_neg b)
     else if is_zero a \<or> is_zero b then signed_zero (is_neg a \<noteq> is_neg b)
     else round_double (finite_value a * finite_value b))"

definition fdiv :: "jsnum \<Rightarrow> jsnum \<Rightarrow> jsnum" where
  "fdiv a b =
    (if a = NaN \<or> b = NaN then NaN
     else if (is_inf a \<and> is_inf b) \<or> (is_zero a \<and> is_zero b) then NaN
     else if is_inf a \<or> is_zero b then signed_inf (is_neg a \<noteq> is_neg b)
     else if is_inf b \<or> is_zero a then signed_zero (is_neg a \<noteq> is_neg b)
     else round_double (finite_value a / finite_value b))"

definition fadd :: "jsnum \<Rightarrow> jsnum \<Rightarrow> jsnum" where
  "fadd a b =
    (if a = NaN \<or> b = NaN then NaN
     else if is_inf a \<and> is_inf b then (if a = b then a else NaN)
     else if is_inf a then a
     else if is_inf b then b
     else if is_zero a \<and> is_zero b then (if a = NegZero \<and> b = NegZero then NegZero else Num 0)
     else round_double (finite_value a + finite_value b))"

text \<open>
  \<open>Math.round\<close>: the nearest integer, a half rounding up; the result is the negative
  zero for a number from \<open>-0.5\<close> up to the negative zero. (The integer is a double: a double
  of magnitude \<open>2 ^ 52\<close> or more is an integer itself.)
\<close>

fun js_round :: "jsnum \<Rightarrow> jsnum" where
  "js_round (Num x) = (if x < 0 \<and> - (1 / 2) \<le> x then NegZero else Num (of_int \<lfloor>x + 1 / 2\<rfloor>))"
| "js_round n = n"

text \<open>
  \<open>x > y\<close> and \<open>x <= y\<close> for a number \<open>x\<close> and a finite literal \<open>y\<close>; every comparison
  with NaN is false.
\<close>

fun gt :: "jsnum \<Rightarrow> rat \<Rightarrow> bool" where
  "gt (Num x) y = (y < x)"
| "gt NegZero y = (y < 0)"
| "gt PosInf y = True"
| "gt NegInf y = False"
| "gt NaN y = False"

fun le :: "jsnum \<Rightarrow> rat \<Rightarrow> bool" where
  "le (Num x) y = (x \<le> y)"
| "le NegZero y = (0 \<le> y)"
| "le PosInf y = False"
| "le NegInf y = True"
| "le NaN y = False"

subsection \<open>Rounding to a double\<close>

lemma pow2_pos: "0 < (2::rat) powi k"
  by (simp add: zero_less_power_int)

lemma pow2_Suc: "(2::rat) powi (k + 1) = 2 * 2 powi k"
  by (simp add: power_int_add)

lemma pow2_pred: "(2::rat) powi (k - 1) = 2 powi k / 2"
  by (simp add: power_int_diff)

lemma pow2_mono: "i \<le> j \<Longrightarrow> (2::rat) powi i \<le> 2 powi j"
  by (rule power_int_increasing) simp_all

lemma pow2_strict_mono: "i < j \<Longrightarrow> (2::rat) powi i < 2 powi j"
  by (rule power_int_strict_increasing) simp_all

lemma pow2_52: "(2::rat) ^ 52 * 2 powi (e - 52) = 2 powi e"
  by (simp add: power_int_diff)

lemma pow2_53: "(2::rat) ^ 53 * 2 powi (e - 52) = 2 powi (e + 1)"
  by (simp add: power_int_diff power_int_add)

lemma ilog2_bounds: "0 < x \<Longrightarrow> 2 powi (ilog2 x) \<le> x \<and> x < 2 powi (ilog2 x + 1)"
proof (induction x rule: ilog2.induct)
  case (1 x)
  show ?case
  proof (cases "x < 1")
    case True
    have e: "ilog2 x = ilog2 (2 * x) - 1"
      using True "1.prems" by (subst ilog2.simps) simp
    have "2 powi (ilog2 (2 * x)) \<le> 2 * x \<and> 2 * x < 2 powi (ilog2 (2 * x) + 1)"
      using "1.IH"(1) True "1.prems" by simp
    then show ?thesis
      unfolding e by (simp add: pow2_pred pow2_Suc)
  next
    case False
    show ?thesis
    proof (cases "2 \<le> x")
      case True
      have e: "ilog2 x = ilog2 (x / 2) + 1"
        using True False "1.prems" by (subst ilog2.simps) simp
      have "2 powi (ilog2 (x / 2)) \<le> x / 2 \<and> x / 2 < 2 powi (ilog2 (x / 2) + 1)"
        using "1.IH"(2) True False "1.prems" by simp
      then show ?thesis
        unfolding e pow2_Suc by simp
    next
      case b: False
      have e: "ilog2 x = 0"
        using b False "1.prems" by (subst ilog2.simps) simp
      show ?thesis
        unfolding e using b False by simp
    qed
  qed
qed

lemma ilog2_unique:
  assumes "0 < x" "2 powi e \<le> x" "x < 2 powi (e + 1)"
  shows "ilog2 x = e"
proof (rule antisym)
  show "ilog2 x \<le> e"
  proof (rule ccontr)
    assume "\<not> ilog2 x \<le> e"
    then have "e + 1 \<le> ilog2 x" by simp
    then have "(2::rat) powi (e + 1) \<le> 2 powi ilog2 x" by (rule pow2_mono)
    then show False using ilog2_bounds [OF assms(1)] assms(3) by simp
  qed
next
  show "e \<le> ilog2 x"
  proof (rule ccontr)
    assume "\<not> e \<le> ilog2 x"
    then have "ilog2 x + 1 \<le> e" by simp
    then have "(2::rat) powi (ilog2 x + 1) \<le> 2 powi e" by (rule pow2_mono)
    then show False using ilog2_bounds [OF assms(1)] assms(2) by simp
  qed
qed

lemma round_even_of_int [simp]: "round_even (of_int m) = m"
  by (simp add: round_even_def)

lemma round_even_ge: "of_int m - 1 / 2 < z \<Longrightarrow> m \<le> round_even z"
  unfolding round_even_def Let_def by (auto; linarith)

lemma round_even_le: "z < of_int m + 1 / 2 \<Longrightarrow> round_even z \<le> m"
  unfolding round_even_def Let_def by (auto; linarith)

lemma round_even_near:
  assumes "\<bar>z - of_int m\<bar> < 1 / 2"
  shows "round_even z = m"
proof -
  have "of_int m - 1 / 2 < z" "z < of_int m + 1 / 2"
    using assms by linarith+
  then show ?thesis
    using round_even_ge [of m z] round_even_le [of z m] by simp
qed


text \<open>
  Bounds on a Number: \<open>at_least n d\<close> for a positive \<open>d\<close> and \<open>at_most n d\<close> for a
  \<open>d\<close> that is not negative.
\<close>

fun at_least :: "jsnum \<Rightarrow> rat \<Rightarrow> bool" where
  "at_least (Num r) d = (d \<le> r)"
| "at_least PosInf d = True"
| "at_least n d = False"

fun at_most :: "jsnum \<Rightarrow> rat \<Rightarrow> bool" where
  "at_most (Num r) d = (r \<le> d)"
| "at_most NegZero d = (0 \<le> d)"
| "at_most NegInf d = True"
| "at_most n d = False"

lemma quantum_normal:
  assumes "0 < x" "- 1022 \<le> ilog2 x"
  shows "quantum x = 2 powi (ilog2 x - 52)"
proof -
  have "\<bar>x\<bar> = x" "max (ilog2 x) (- 1022) = ilog2 x"
    using assms by simp_all
  then show ?thesis
    by (simp only: quantum_def)
qed

lemma quantum_pos_arg: "0 < x \<Longrightarrow> quantum x = 2 powi (max (ilog2 x) (- 1022) - 52)"
  by (simp add: quantum_def)

lemma quantum_pos: "0 < quantum x"
  by (simp add: quantum_def pow2_pos)

lemma round_even_nonneg: "0 \<le> z \<Longrightarrow> 0 \<le> round_even z"
  using round_even_ge [of 0 z] by simp

text \<open>The magnitude \<open>round_double\<close> rounds to, before overflow and sign are decided.\<close>

definition round_mag :: "rat \<Rightarrow> rat" where
  "round_mag x = of_int (round_even (\<bar>x\<bar> / quantum x)) * quantum x"

lemma round_mag_nonneg: "0 \<le> round_mag x"
  unfolding round_mag_def
  by (intro mult_nonneg_nonneg) (simp_all add: round_even_nonneg quantum_pos less_imp_le)

lemma round_double_mag:
  "round_double x =
     (if 2 powi 1024 \<le> round_mag x then (if x < 0 then NegInf else PosInf)
      else if round_mag x = 0 then (if x < 0 then NegZero else Num 0)
      else Num (if x < 0 then - round_mag x else round_mag x))"
  by (simp add: round_double_def round_mag_def Let_def)

lemma round_mag_lower:
  assumes m: "2 ^ 52 < m" "m \<le> 2 ^ 53" and e: "- 1022 \<le> e"
    and x: "(of_int m - 1 / 2) * 2 powi (e - 52) < x"
  shows "of_int m * 2 powi (e - 52) \<le> round_mag x"
proof -
  have "(2::rat) ^ 52 \<le> of_int m - 1 / 2"
  proof -
    have "(2::int) ^ 52 + 1 \<le> m" using m(1) by simp
    then have "of_int ((2::int) ^ 52 + 1) \<le> (of_int m :: rat)" by (simp only: of_int_le_iff)
    then show ?thesis by simp
  qed
  then have "(2::rat) ^ 52 * 2 powi (e - 52) \<le> (of_int m - 1 / 2) * 2 powi (e - 52)"
    by (intro mult_right_mono) (simp_all add: pow2_pos less_imp_le)
  then have lo: "2 powi e < x"
    using x by (simp only: pow2_52)
  then have pos: "0 < x"
    by (rule less_trans [OF pow2_pos])
  define e' where "e' = ilog2 x"
  have b: "2 powi e' \<le> x" "x < 2 powi (e' + 1)"
    using ilog2_bounds [OF pos] by (simp_all add: e'_def)
  have ee: "e \<le> e'"
  proof (rule ccontr)
    assume "\<not> e \<le> e'"
    then have "e' + 1 \<le> e" by simp
    then have "(2::rat) powi (e' + 1) \<le> 2 powi e" by (rule pow2_mono)
    then show False using b lo by simp
  qed
  have q: "quantum x = 2 powi (e' - 52)"
    using quantum_normal [OF pos] e ee by (simp add: e'_def)
  have ax: "\<bar>x\<bar> = x" using pos by simp
  show ?thesis
  proof (cases "e' = e")
    case True
    have "of_int m - 1 / 2 < x / 2 powi (e - 52)"
      using x pow2_pos [of "e - 52"] by (simp add: pos_less_divide_eq)
    then have "m \<le> round_even (x / 2 powi (e - 52))"
      by (rule round_even_ge)
    then have "(of_int m :: rat) \<le> of_int (round_even (x / 2 powi (e - 52)))"
      by (simp only: of_int_le_iff)
    then show ?thesis
      unfolding round_mag_def q ax True
      by (intro mult_right_mono) (simp_all add: pow2_pos less_imp_le)
  next
    case False
    then have lt: "e + 1 \<le> e'" using ee by simp
    have "(2::rat) ^ 52 * 2 powi (e' - 52) \<le> x"
      using b by (simp only: pow2_52)
    then have z: "(2::rat) ^ 52 \<le> x / 2 powi (e' - 52)"
      using pow2_pos [of "e' - 52"] by (simp add: pos_le_divide_eq)
    have "(of_int ((2::int) ^ 52) :: rat) = 2 ^ 52"
      by simp
    with z have "of_int ((2::int) ^ 52) - 1 / 2 < x / 2 powi (e' - 52)"
      by linarith
    then have "(2::int) ^ 52 \<le> round_even (x / 2 powi (e' - 52))"
      by (rule round_even_ge)
    then have "(of_int ((2::int) ^ 52) :: rat) \<le> of_int (round_even (x / 2 powi (e' - 52)))"
      by (simp only: of_int_le_iff)
    then have "(2::rat) ^ 52 * 2 powi (e' - 52) \<le> round_mag x"
      unfolding round_mag_def q ax
      by (intro mult_right_mono) (simp_all add: pow2_pos less_imp_le)
    then have "2 powi e' \<le> round_mag x"
      by (simp only: pow2_52)
    moreover have "(2::rat) powi (e + 1) \<le> 2 powi e'"
      using lt by (rule pow2_mono)
    moreover have "of_int m * 2 powi (e - 52) \<le> (2::rat) ^ 53 * 2 powi (e - 52)"
    proof -
      have "(of_int m :: rat) \<le> of_int ((2::int) ^ 53)"
        using m(2) by (simp only: of_int_le_iff)
      then show ?thesis
        by (intro mult_right_mono) (simp_all add: pow2_pos less_imp_le)
    qed
    ultimately show ?thesis
      unfolding pow2_53 by linarith
  qed
qed

lemma round_double_lower:
  assumes m: "2 ^ 52 < m" "m \<le> 2 ^ 53" and e: "- 1022 \<le> e"
    and x: "(of_int m - 1 / 2) * 2 powi (e - 52) < x"
  shows "at_least (round_double x) (of_int m * 2 powi (e - 52))"
proof -
  have r: "of_int m * 2 powi (e - 52) \<le> round_mag x"
    using assms by (rule round_mag_lower)
  have "0 < (of_int m :: rat) * 2 powi (e - 52)"
    using m(1) by (intro mult_pos_pos) (simp_all add: pow2_pos)
  then have "0 < round_mag x" using r by simp
  moreover have "0 < x"
  proof -
    have "0 \<le> (of_int m - 1 / 2 :: rat) * 2 powi (e - 52)"
      using m(1) by (intro mult_nonneg_nonneg) (simp_all add: pow2_pos less_imp_le)
    then show ?thesis using x by simp
  qed
  ultimately show ?thesis
    using r by (simp add: round_double_mag)
qed


lemma round_mag_upper:
  assumes m: "2 ^ 52 \<le> m" "m < 2 ^ 53" and e: "- 1022 \<le> e"
    and pos: "0 < x" and x: "x < (of_int m + 1 / 2) * 2 powi (e - 52)"
  shows "round_mag x \<le> of_int m * 2 powi (e - 52)"
proof -
  have ax: "\<bar>x\<bar> = x" using pos by simp
  have "(of_int m :: rat) + 1 / 2 \<le> 2 ^ 53"
  proof -
    have "m + 1 \<le> (2::int) ^ 53" using m(2) by simp
    then have "(of_int (m + 1) :: rat) \<le> of_int ((2::int) ^ 53)" by (simp only: of_int_le_iff)
    then show ?thesis by simp
  qed
  then have "(of_int m + 1 / 2) * 2 powi (e - 52) \<le> (2::rat) ^ 53 * 2 powi (e - 52)"
    by (intro mult_right_mono) (simp_all add: pow2_pos less_imp_le)
  then have hi: "x < 2 powi (e + 1)"
    using x unfolding pow2_53 by linarith
  define e' where "e' = ilog2 x"
  have b: "2 powi e' \<le> x" "x < 2 powi (e' + 1)"
    using ilog2_bounds [OF pos] by (simp_all add: e'_def)
  have ee: "e' \<le> e"
  proof (rule ccontr)
    assume "\<not> e' \<le> e"
    then have "e + 1 \<le> e'" by simp
    then have "(2::rat) powi (e + 1) \<le> 2 powi e'" by (rule pow2_mono)
    then show False using b hi by simp
  qed
  define E where "E = max e' (- 1022)"
  have q: "quantum x = 2 powi (E - 52)"
    using quantum_pos_arg [OF pos] by (simp add: E_def e'_def)
  have Ee: "E \<le> e" using ee e by (simp add: E_def)
  have d: "(2::rat) powi e \<le> of_int m * 2 powi (e - 52)"
  proof -
    have "(of_int ((2::int) ^ 52) :: rat) \<le> of_int m"
      using m(1) by (simp only: of_int_le_iff)
    then have "(2::rat) ^ 52 * 2 powi (e - 52) \<le> of_int m * 2 powi (e - 52)"
      by (intro mult_right_mono) (simp_all add: pow2_pos less_imp_le)
    then show ?thesis by (simp only: pow2_52)
  qed
  show ?thesis
  proof (cases "E = e")
    case True
    have "x / 2 powi (e - 52) < of_int m + 1 / 2"
      using x pow2_pos [of "e - 52"] by (simp add: pos_divide_less_eq)
    then have "round_even (x / 2 powi (e - 52)) \<le> m"
      by (rule round_even_le)
    then have "(of_int (round_even (x / 2 powi (e - 52))) :: rat) \<le> of_int m"
      by (simp only: of_int_le_iff)
    then show ?thesis
      unfolding round_mag_def q ax True
      by (intro mult_right_mono) (simp_all add: pow2_pos less_imp_le)
  next
    case False
    then have lt: "E + 1 \<le> e" using Ee by simp
    have "e' + 1 \<le> E + 1" by (simp add: E_def)
    then have "(2::rat) powi (e' + 1) \<le> 2 powi (E + 1)" by (rule pow2_mono)
    then have "x < (2::rat) ^ 53 * 2 powi (E - 52)"
      using b unfolding pow2_53 by linarith
    then have z: "x / 2 powi (E - 52) < (2::rat) ^ 53"
      using pow2_pos [of "E - 52"] by (simp add: pos_divide_less_eq)
    have "(of_int ((2::int) ^ 53) :: rat) = 2 ^ 53"
      by simp
    with z have "x / 2 powi (E - 52) < of_int ((2::int) ^ 53) + 1 / 2"
      by linarith
    then have "round_even (x / 2 powi (E - 52)) \<le> (2::int) ^ 53"
      by (rule round_even_le)
    then have "(of_int (round_even (x / 2 powi (E - 52))) :: rat) \<le> of_int ((2::int) ^ 53)"
      by (simp only: of_int_le_iff)
    then have "round_mag x \<le> (2::rat) ^ 53 * 2 powi (E - 52)"
      unfolding round_mag_def q ax
      by (intro mult_right_mono) (simp_all add: pow2_pos less_imp_le)
    then have "round_mag x \<le> 2 powi (E + 1)"
      by (simp only: pow2_53)
    moreover have "(2::rat) powi (E + 1) \<le> 2 powi e"
      using lt by (rule pow2_mono)
    ultimately show ?thesis
      using d by linarith
  qed
qed

lemma round_mag_zero [simp]: "round_mag 0 = 0"
  by (simp add: round_mag_def round_even_def)

lemma round_double_nonpos: "x \<le> 0 \<Longrightarrow> 0 \<le> d \<Longrightarrow> at_most (round_double x) d"
  using round_mag_nonneg [of x] by (cases "x = 0") (auto simp: round_double_mag)

lemma round_double_upper:
  assumes m: "2 ^ 52 \<le> m" "m < 2 ^ 53" and e: "- 1022 \<le> e" "e \<le> 1023"
    and x: "x < (of_int m + 1 / 2) * 2 powi (e - 52)"
  shows "at_most (round_double x) (of_int m * 2 powi (e - 52))"
proof (cases "0 < x")
  case True
  have r: "round_mag x \<le> of_int m * 2 powi (e - 52)"
    using m e(1) True x by (rule round_mag_upper)
  have "(of_int m :: rat) < of_int ((2::int) ^ 53)"
    using m(2) by (simp only: of_int_less_iff)
  then have "of_int m * 2 powi (e - 52) < (2::rat) ^ 53 * 2 powi (e - 52)"
    by (intro mult_strict_right_mono) (simp_all add: pow2_pos)
  moreover have "(2::rat) powi (e + 1) \<le> 2 powi 1024"
    using e(2) by (intro pow2_mono) simp
  ultimately have "round_mag x < 2 powi 1024"
    using r unfolding pow2_53 by linarith
  then show ?thesis
    using r True round_mag_nonneg [of x] by (simp add: round_double_mag)
next
  case False
  have "0 \<le> (of_int m :: rat) * 2 powi (e - 52)"
    using m(1) by (intro mult_nonneg_nonneg) (simp_all add: pow2_pos less_imp_le)
  then show ?thesis
    using False by (intro round_double_nonpos) simp_all
qed

lemma round_double_eq:
  assumes pos: "0 < x" and lo: "2 powi e \<le> x" and hi: "x < 2 powi (e + 1)"
    and e: "- 1022 \<le> e" "e \<le> 1022"
    and m: "\<bar>x / 2 powi (e - 52) - of_int m\<bar> < 1 / 2"
  shows "round_double x = Num (of_int m * 2 powi (e - 52))"
proof -
  have ax: "\<bar>x\<bar> = x" using pos by simp
  have i: "ilog2 x = e"
    using pos lo hi by (rule ilog2_unique)
  have q: "quantum x = 2 powi (e - 52)"
    using quantum_normal [OF pos] e i by simp
  have r: "round_mag x = of_int m * 2 powi (e - 52)"
    unfolding round_mag_def q ax by (simp only: round_even_near [OF m])
  have "(2::rat) ^ 52 * 2 powi (e - 52) \<le> x" "x < (2::rat) ^ 53 * 2 powi (e - 52)"
    using lo hi by (simp_all only: pow2_52 pow2_53)
  then have z: "(2::rat) ^ 52 \<le> x / 2 powi (e - 52)" "x / 2 powi (e - 52) < (2::rat) ^ 53"
    using pow2_pos [of "e - 52"] by (simp_all add: pos_le_divide_eq pos_divide_less_eq)
  have c: "(of_int ((2::int) ^ 52) :: rat) = 2 ^ 52" "(of_int ((2::int) ^ 53) :: rat) = 2 ^ 53"
    by simp_all
  have "of_int ((2::int) ^ 52) - 1 / 2 < x / 2 powi (e - 52)"
    "x / 2 powi (e - 52) < of_int ((2::int) ^ 53) + 1 / 2"
    using z c by linarith+
  then have "(2::int) ^ 52 \<le> round_even (x / 2 powi (e - 52))"
    "round_even (x / 2 powi (e - 52)) \<le> (2::int) ^ 53"
    by (simp_all only: round_even_ge round_even_le)
  then have mm: "(2::int) ^ 52 \<le> m" "m \<le> (2::int) ^ 53"
    by (simp_all only: round_even_near [OF m])
  then have "(of_int ((2::int) ^ 52) :: rat) \<le> of_int m" "(of_int m :: rat) \<le> of_int ((2::int) ^ 53)"
    by (simp_all only: of_int_le_iff)
  then have "(2::rat) ^ 52 * 2 powi (e - 52) \<le> of_int m * 2 powi (e - 52)"
    "of_int m * 2 powi (e - 52) \<le> (2::rat) ^ 53 * 2 powi (e - 52)"
    unfolding c by (intro mult_right_mono; simp add: pow2_pos less_imp_le)+
  then have b: "2 powi e \<le> round_mag x" "round_mag x \<le> 2 powi (e + 1)"
    unfolding r by (simp_all only: pow2_52 pow2_53)
  have "(2::rat) powi (e + 1) < 2 powi 1024"
    using e(2) by (intro pow2_strict_mono) simp
  then have "round_mag x < 2 powi 1024" "0 < round_mag x"
    using b pow2_pos [of e] by linarith+
  then show ?thesis
    using pos by (simp add: round_double_mag r)
qed


lemma fdiv_Num:
  "a \<noteq> 0 \<Longrightarrow> L \<noteq> 0 \<Longrightarrow> fdiv (Num a) (Num L) = round_double (a / L)"
  by (simp add: fdiv_def is_inf_def is_zero_def)

lemma fmul_Num:
  "a \<noteq> 0 \<Longrightarrow> b \<noteq> 0 \<Longrightarrow> fmul (Num a) (Num b) = round_double (a * b)"
  by (simp add: fmul_def is_inf_def is_zero_def)

lemma fadd_Num:
  "a \<noteq> 0 \<or> b \<noteq> 0 \<Longrightarrow> fadd (Num a) (Num b) = round_double (a + b)"
  by (auto simp: fadd_def is_inf_def is_zero_def)

lemma fdiv_lower:
  assumes L: "0 < L" and t: "T \<le> a / L"
    and m: "2 ^ 52 < m" "m \<le> 2 ^ 53" "- 1022 \<le> e" "(of_int m - 1 / 2) * 2 powi (e - 52) < T"
  shows "at_least (fdiv (Num a) (Num L)) (of_int m * 2 powi (e - 52))"
proof -
  have "0 \<le> (of_int m - 1 / 2 :: rat) * 2 powi (e - 52)"
    using m(1) by (intro mult_nonneg_nonneg) (simp_all add: pow2_pos less_imp_le)
  then have "0 < a / L" using m(4) t by linarith
  then have "a \<noteq> 0" by auto
  then have "fdiv (Num a) (Num L) = round_double (a / L)"
    using L by (simp add: fdiv_Num)
  moreover have "(of_int m - 1 / 2) * 2 powi (e - 52) < a / L"
    using m(4) t by linarith
  ultimately show ?thesis
    using round_double_lower [OF m(1,2,3)] by simp
qed

lemma fdiv_upper:
  assumes L: "0 < L" and t: "a / L \<le> T"
    and m: "2 ^ 52 \<le> m" "m < 2 ^ 53" "- 1022 \<le> e" "e \<le> 1023"
      "T < (of_int m + 1 / 2) * 2 powi (e - 52)"
  shows "at_most (fdiv (Num a) (Num L)) (of_int m * 2 powi (e - 52))"
proof (cases "a = 0")
  case True
  have "0 \<le> (of_int m :: rat) * 2 powi (e - 52)"
    using m(1) by (intro mult_nonneg_nonneg) (simp_all add: pow2_pos less_imp_le)
  then show ?thesis
    using True L by (simp add: fdiv_def is_inf_def is_zero_def signed_zero_def)
next
  case False
  then have "fdiv (Num a) (Num L) = round_double (a / L)"
    using L by (simp add: fdiv_Num)
  moreover have "a / L < (of_int m + 1 / 2) * 2 powi (e - 52)"
    using m(5) t by linarith
  ultimately show ?thesis
    using round_double_upper [OF m(1,2,3,4)] by simp
qed

lemma fmul_lower:
  assumes n: "at_least n d" and d: "0 < d" and c: "0 < c"
    and m: "2 ^ 52 < m" "m \<le> 2 ^ 53" "- 1022 \<le> e" "(of_int m - 1 / 2) * 2 powi (e - 52) < d * c"
  shows "at_least (fmul n (Num c)) (of_int m * 2 powi (e - 52))"
proof (cases n)
  case (Num r)
  then have r: "d \<le> r" using n by simp
  then have "r \<noteq> 0" using d by simp
  then have "fmul n (Num c) = round_double (r * c)"
    using c Num by (simp add: fmul_Num)
  moreover have "d * c \<le> r * c"
    using r c by (intro mult_right_mono) simp_all
  then have "(of_int m - 1 / 2) * 2 powi (e - 52) < r * c"
    using m(4) by linarith
  ultimately show ?thesis
    using round_double_lower [OF m(1,2,3)] by simp
next
  case PosInf
  then show ?thesis
    using c by (simp add: fmul_def is_inf_def is_zero_def signed_inf_def)
qed (use n in simp_all)

lemma fmul_upper:
  assumes n: "at_most n d" and c: "0 < c"
    and m: "2 ^ 52 \<le> m" "m < 2 ^ 53" "- 1022 \<le> e" "e \<le> 1023"
      "d * c < (of_int m + 1 / 2) * 2 powi (e - 52)"
  shows "at_most (fmul n (Num c)) (of_int m * 2 powi (e - 52))"
proof -
  have nn: "0 \<le> (of_int m :: rat) * 2 powi (e - 52)"
    using m(1) by (intro mult_nonneg_nonneg) (simp_all add: pow2_pos less_imp_le)
  show ?thesis
  proof (cases n)
    case (Num r)
    then have r: "r \<le> d" using n by simp
    show ?thesis
    proof (cases "r = 0")
      case True
      then show ?thesis
        using Num c nn by (simp add: fmul_def is_inf_def is_zero_def signed_zero_def)
    next
      case False
      then have "fmul n (Num c) = round_double (r * c)"
        using c Num by (simp add: fmul_Num)
      moreover have "r * c \<le> d * c"
        using r c by (intro mult_right_mono) simp_all
      then have "r * c < (of_int m + 1 / 2) * 2 powi (e - 52)"
        using m(5) by linarith
      ultimately show ?thesis
        using round_double_upper [OF m(1,2,3,4)] by simp
    qed
  next
    case NegZero
    then show ?thesis
      using c nn by (simp add: fmul_def is_inf_def is_zero_def signed_zero_def)
  next
    case NegInf
    then show ?thesis
      using c by (simp add: fmul_def is_inf_def is_zero_def signed_inf_def)
  qed (use n in simp_all)
qed

lemma js_round_lower:
  assumes "at_least n d" "of_int k + 1 / 2 \<le> d" "0 \<le> k"
  shows "gt (js_round n) (of_int k)"
proof (cases n)
  case (Num r)
  then have "of_int k + 1 / 2 \<le> r" using assms by simp
  moreover from this have "of_int (k + 1) \<le> r + 1 / 2" by simp
  then have "k + 1 \<le> \<lfloor>r + 1 / 2\<rfloor>" by (simp only: le_floor_iff)
  then have "(of_int k :: rat) < of_int \<lfloor>r + 1 / 2\<rfloor>" by (simp only: of_int_less_iff)
  moreover have "0 \<le> r" using assms(3) \<open>of_int k + 1 / 2 \<le> r\<close> by (simp add: order_trans [of 0 "of_int k + 1 / 2"])
  ultimately show ?thesis
    using Num by simp
qed (use assms in simp_all)

lemma js_round_upper:
  assumes "at_most n d" "d < of_int k + 1 / 2" "0 \<le> k"
  shows "\<not> gt (js_round n) (of_int k)"
proof (cases n)
  case (Num r)
  then have "r + 1 / 2 < of_int (k + 1)" using assms by simp
  then have "\<lfloor>r + 1 / 2\<rfloor> < k + 1" by (simp only: floor_less_iff)
  then have "(of_int \<lfloor>r + 1 / 2\<rfloor> :: rat) \<le> of_int k" by (simp only: of_int_le_iff)
  then show ?thesis
    using Num assms(3) by simp
qed (use assms in simp_all)


section \<open>JavaScript values\<close>

text \<open>
  The values the client handles: what \<open>JSON.parse\<close> yields, and \<open>undefined\<close>. An object
  is the list of its own properties; the first binding of a name is the live one.
\<close>

datatype jsval =
    JUndefined
  | JNull
  | JBool bool
  | JNumber jsnum
  | JString string
  | JArray "jsval list"
  | JObject "(string \<times> jsval) list"

text \<open>
  Three conversions are the host's: reading a non-blank text as a number (the grammar
  StringNumericLiteral: the double nearest to a literal, an infinity for \<open>Infinity\<close> or a
  literal beyond the doubles, NaN for a text that is no literal), printing a finite number
  other than zero, and the rounding of \<open>Intl.NumberFormat\<close> to two fraction digits, which
  gives the magnitude in hundredths. (ECMA-402 rounds the exact value of the double, a
  half away from zero; a formatter built on ICU rounds the shortest decimal that reads
  back as the double. The two differ, at 1.005 for one.)
\<close>

record host =
  read_number :: "string \<Rightarrow> jsnum"
  show_number :: "rat \<Rightarrow> string"
  round_hundredths :: "rat \<Rightarrow> nat"

text \<open>ToBoolean.\<close>

fun truthy :: "jsval \<Rightarrow> bool" where
  "truthy JUndefined = False"
| "truthy JNull = False"
| "truthy (JBool b) = b"
| "truthy (JNumber n) = (\<not> is_zero n \<and> n \<noteq> NaN)"
| "truthy (JString s) = (s \<noteq> [])"
| "truthy (JArray xs) = True"
| "truthy (JObject kvs) = True"

text \<open>\<open>a || b\<close>, \<open>a && b\<close> and \<open>a ?? b\<close> on values whose evaluation has no effect.\<close>

definition js_or :: "jsval \<Rightarrow> jsval \<Rightarrow> jsval" where
  "js_or a b = (if truthy a then a else b)"

definition js_and :: "jsval \<Rightarrow> jsval \<Rightarrow> jsval" where
  "js_and a b = (if truthy a then b else a)"

definition nullish :: "jsval \<Rightarrow> jsval \<Rightarrow> jsval" where
  "nullish a b = (if a = JUndefined \<or> a = JNull then b else a)"

text \<open>
  \<open>a || e\<close> where the evaluation of \<open>e\<close> may throw (\<open>None\<close>): \<open>e\<close> is evaluated only when
  \<open>a\<close> is falsy.
\<close>

definition js_or_else :: "jsval \<Rightarrow> jsval option \<Rightarrow> jsval option" where
  "js_or_else a e = (if truthy a then Some a else e)"

text \<open>
  The property read \<open>v.name\<close>, for the names the client reads (label, text, command,
  value, key, error, message): none of them is a member of a prototype, so the read is
  \<open>undefined\<close> unless \<open>v\<close> is an object with that own property. (A read of a property of
  \<open>null\<close> or \<open>undefined\<close> throws; the callers guard it, and model it where they do not.)
\<close>

fun get_property :: "jsval \<Rightarrow> string \<Rightarrow> jsval" where
  "get_property (JObject kvs) name = (case map_of kvs name of Some v \<Rightarrow> v | None \<Rightarrow> JUndefined)"
| "get_property v name = JUndefined"

text \<open>The decimal digit of a number below ten.\<close>

definition digit_char :: "nat \<Rightarrow> char" where
  "digit_char n = ''0123456789'' ! (n mod 10)"

text \<open>The decimal digits of a natural number.\<close>

fun show_nat :: "nat \<Rightarrow> string" where
  "show_nat n = (if n < 10 then [digit_char n] else show_nat (n div 10) @ [digit_char (n mod 10)])"

declare show_nat.simps [simp del]

fun join_with :: "string \<Rightarrow> string list \<Rightarrow> string" where
  "join_with sep [] = []"
| "join_with sep [x] = x"
| "join_with sep (x # y # ys) = x @ sep @ join_with sep (y # ys)"

text \<open>Number::toString.\<close>

fun number_to_string :: "host \<Rightarrow> jsnum \<Rightarrow> string" where
  "number_to_string h (Num x) = (if x = 0 then ''0'' else show_number h x)"
| "number_to_string h NegZero = ''0''"
| "number_to_string h PosInf = ''Infinity''"
| "number_to_string h NegInf = ''-Infinity''"
| "number_to_string h NaN = ''NaN''"

text \<open>
  An object that \<open>JSON.parse\<close> made inherits \<open>toString\<close> and \<open>valueOf\<close> from
  \<open>Object.prototype\<close>, unless it has an own property of that name, whose value is no
  function. The conversion of an object to a primitive calls \<open>toString\<close> and \<open>valueOf\<close> (in
  this order towards a string, in the other towards a number), passes over one that is no
  function or returns an object, and throws a TypeError when neither gave a primitive. The
  inherited \<open>valueOf\<close> returns the object itself and the inherited \<open>toString\<close> returns
  \<open>[object Object]\<close>: so either conversion throws exactly when the object has an own
  property \<open>toString\<close>.
\<close>

definition own_toString :: "(string \<times> jsval) list \<Rightarrow> bool" where
  "own_toString kvs = (''toString'' \<in> set (map fst kvs))"

text \<open>
  ToString (\<open>String(v)\<close>, and the conversion a template literal or \<open>new Error\<close> applies);
  \<open>None\<close> when it throws a TypeError. An array joins the strings of its elements, the
  empty string standing for \<open>null\<close> and \<open>undefined\<close>.
\<close>

fun to_string :: "host \<Rightarrow> jsval \<Rightarrow> string option" where
  "to_string h JUndefined = Some ''undefined''"
| "to_string h JNull = Some ''null''"
| "to_string h (JBool b) = Some (if b then ''true'' else ''false'')"
| "to_string h (JNumber n) = Some (number_to_string h n)"
| "to_string h (JString s) = Some s"
| "to_string h (JArray xs) =
     map_option (join_with '','')
       (those (map (\<lambda>x. if x = JUndefined \<or> x = JNull then Some [] else to_string h x) xs))"
| "to_string h (JObject kvs) = (if own_toString kvs then None else Some ''[object Object]'')"

text \<open>White space and line terminators, in ASCII.\<close>

definition is_space :: "char \<Rightarrow> bool" where
  "is_space c = (c \<in> set [CHR 0x09, CHR 0x0A, CHR 0x0B, CHR 0x0C, CHR 0x0D, CHR 0x20])"

definition trim :: "string \<Rightarrow> string" where
  "trim s = rev (dropWhile is_space (rev (dropWhile is_space s)))"

text \<open>StringToNumber: a blank string is 0, any other is read by the host.\<close>

definition string_to_number :: "host \<Rightarrow> string \<Rightarrow> jsnum" where
  "string_to_number h s = (let t = trim s in if t = [] then Num 0 else read_number h t)"

text \<open>
  ToNumber (\<open>Number(v)\<close>); \<open>None\<close> when it throws a TypeError. An array is converted
  through its string; so is an object, whose string \<open>[object Object]\<close> is no numeric
  literal.
\<close>

fun to_number :: "host \<Rightarrow> jsval \<Rightarrow> jsnum option" where
  "to_number h JUndefined = Some NaN"
| "to_number h JNull = Some (Num 0)"
| "to_number h (JBool b) = Some (if b then Num 1 else Num 0)"
| "to_number h (JNumber n) = Some n"
| "to_number h (JString s) = Some (string_to_number h s)"
| "to_number h (JArray xs) = map_option (string_to_number h) (to_string h (JArray xs))"
| "to_number h (JObject kvs) = (if own_toString kvs then None else Some NaN)"

text \<open>
  A host for the concrete instances below: it reads no literal, and rounds the exact
  value to hundredths, a half away from zero.
\<close>

definition host0 :: host where
  "host0 = \<lparr>read_number = (\<lambda>s. NaN), show_number = (\<lambda>r. ''0''),
            round_hundredths = (\<lambda>x. nat \<lfloor>x * 100 + 1 / 2\<rfloor>)\<rparr>"

section \<open>Budget evaluation of the dashboard (frontend/src/App.js)\<close>

text \<open>The constant \<open>BUDGET_GUESSES\<close>, an object literal, as the list of its own properties.\<close>

definition BUDGET_GUESSES :: "(string \<times> rat) list" where
  "BUDGET_GUESSES =
    [(''food'', 10000), (''transport'', 4000), (''entertainment'', 3000),
     (''shopping'', 5000), (''utilities'', 5000), (''health'', 3000),
     (''personal'', 2000), (''gifts'', 2000), (''savings'', 6000),
     (''uncategorized'', 2000), (''other'', 2500)]"

text \<open>
  An object literal inherits the members of \<open>Object.prototype\<close>, so the property read
  \<open>BUDGET_GUESSES[name]\<close> is defined for these names as well. Each of them is a function
  (an object for \<open>__proto__\<close>): truthy, and NaN as a number.
\<close>

definition object_prototype_names :: "string list" where
  "object_prototype_names =
    [''constructor'', ''__defineGetter__'', ''__defineSetter__'', ''hasOwnProperty'',
     ''__lookupGetter__'', ''__lookupSetter__'', ''isPrototypeOf'',
     ''propertyIsEnumerable'', ''toString'', ''valueOf'', ''__proto__'',
     ''toLocaleString'']"

datatype member = Own rat | Inherited

text \<open>\<open>BUDGET_GUESSES[name]\<close>; \<open>None\<close> is \<open>undefined\<close>.\<close>

definition budget_member :: "string \<Rightarrow> member option" where
  "budget_member name =
    (case map_of BUDGET_GUESSES name of
       Some b \<Rightarrow> Some (Own b)
     | None \<Rightarrow> if name \<in> set object_prototype_names then Some Inherited else None)"

text \<open>\<open>BUDGET_GUESSES[item.category] ?? 4000\<close>\<close>

definition budget_for :: "string \<Rightarrow> member" where
  "budget_for name = (case budget_member name of Some m \<Rightarrow> m | None \<Rightarrow> Own 4000)"

text \<open>
  \<open>budget ? Math.round((item.amount / budget) * 100) : 0\<close>: the division and the
  multiplication are those of doubles, each rounding its result. An inherited member
  converts to NaN.
\<close>

fun percentage_of :: "jsnum \<Rightarrow> member \<Rightarrow> jsnum" where
  "percentage_of amount (Own b) =
     (if b \<noteq> 0 then js_round (fmul (fdiv amount (Num b)) (Num 100)) else Num 0)"
| "percentage_of amount Inherited = NaN"

text \<open>
  \<open>titleCase\<close>: underscores become spaces, then every word character at a word boundary
  (\<open>/\b\w/g\<close>) is upper-cased. Word characters are the ASCII letters, digits and the
  underscore.
\<close>

definition is_word_char :: "char \<Rightarrow> bool" where
  "is_word_char c =
    (let n = (of_char c :: nat) in
       (48 \<le> n \<and> n \<le> 57) \<or> (65 \<le> n \<and> n \<le> 90) \<or> (97 \<le> n \<and> n \<le> 122) \<or> n = 95)"

definition toUpperCase_char :: "char \<Rightarrow> char" where
  "toUpperCase_char c =
    (let n = (of_char c :: nat) in if 97 \<le> n \<and> n \<le> 122 then char_of (n - 32) else c)"

fun capitalise_words :: "bool \<Rightarrow> string \<Rightarrow> string" where
  "capitalise_words inside [] = []"
| "capitalise_words inside (c # cs) =
     (if is_word_char c
      then (if inside then c else toUpperCase_char c) # capitalise_words True cs
      else c # capitalise_words False cs)"

definition titleCase :: "string \<Rightarrow> string" where
  "titleCase v = capitalise_words False (map (\<lambda>c. if c = CHR ''_'' then CHR '' '' else c) v)"

text \<open>
  An entry of \<open>categoryTotals\<close> (the output of \<open>normalizeCategoryTotals\<close>, which makes
  the amount a number).
\<close>

record category_total =
  ct_category :: string
  ct_amount :: jsnum

text \<open>An entry of \<open>categoryData\<close>.\<close>

record category_row =
  row_category :: string
  row_total :: jsnum
  row_budget :: member
  row_percentage :: jsnum

definition category_row_of :: "category_total \<Rightarrow> category_row" where
  "category_row_of item =
    (let budget = budget_for (ct_category item);
         percentage = percentage_of (ct_amount item) budget
     in \<lparr>row_category = titleCase (ct_category item), row_total = ct_amount item,
         row_budget = budget, row_percentage = percentage\<rparr>)"

definition categoryData :: "category_total list \<Rightarrow> category_row list" where
  "categoryData categoryTotals = map category_row_of categoryTotals"

text \<open>The bytes of the warning sign U+26A0 U+FE0F in UTF-8.\<close>

definition warning_sign :: string where
  "warning_sign = [CHR 0xE2, CHR 0x9A, CHR 0xA0, CHR 0xEF, CHR 0xB8, CHR 0x8F]"

text \<open>
  The alert text the Category Summary renders for a row:
  \<open>cat.percentage > 80 && (cat.percentage > 100 ? 'Over Budget' : 'Warning')\<close>,
  each after the warning sign; \<open>None\<close> when nothing is rendered.
\<close>

definition budget_alert_text :: "jsnum \<Rightarrow> string option" where
  "budget_alert_text percentage =
    (if gt percentage 80
     then Some (if gt percentage 100 then warning_sign @ '' Over Budget''
                else warning_sign @ '' Warning'')
     else None)"

definition row_alert :: "category_total \<Rightarrow> string option" where
  "row_alert item = budget_alert_text (row_percentage (category_row_of item))"

text \<open>
  An earlier draft of the dashboard (among the sources without a name) renders the same
  Category Summary, with the same two comparisons, over sample rows it writes out.
\<close>

definition draft_categoryData :: "category_row list" where
  "draft_categoryData =
    [\<lparr>row_category = ''Food'', row_total = Num 10500, row_budget = Own 10000, row_percentage = Num 105\<rparr>,
     \<lparr>row_category = ''Transport'', row_total = Num 6200, row_budget = Own 4000, row_percentage = Num 155\<rparr>,
     \<lparr>row_category = ''Entertainment'', row_total = Num 4500, row_budget = Own 3000, row_percentage = Num 150\<rparr>,
     \<lparr>row_category = ''Shopping'', row_total = Num 3800, row_budget = Own 5000, row_percentage = Num 76\<rparr>,
     \<lparr>row_category = ''Utilities'', row_total = Num 3450, row_budget = Own 5000, row_percentage = Num 69\<rparr>,
     \<lparr>row_category = ''Health'', row_total = Num 2100, row_budget = Own 3000, row_percentage = Num 70\<rparr>]"

subsection \<open>Properties of the budget evaluation\<close>

text \<open>
  The percentage of some totals, each computed as the doubles do: a total of 10050
  against 10000, and one of 4020 against 4000, is 100.49999999999999 per cent before
  \<open>Math.round\<close>, and 100 after it; the double next below 8050 (8049.999999999999), and
  the one next below 3220 (3219.9999999999995), is at 80.5 per cent after the two
  roundings, and 81 after \<open>Math.round\<close>.
\<close>

lemma pct_10500_10000: "js_round (fmul (fdiv (Num 10500) (Num 10000)) (Num 100)) = Num 105"
proof -
  have 1: "fdiv (Num 10500) (Num 10000) = Num (4728779608739021 / 4503599627370496)"
    by (simp add: fdiv_Num round_double_eq [where e = "0" and m = 4728779608739021])
  have 2: "fmul (Num (4728779608739021 / 4503599627370496)) (Num 100) = Num 105"
    by (simp add: fmul_Num round_double_eq [where e = "6" and m = 7388718138654720])
  show ?thesis
    by (simp only: 1 2) (simp add: floor_eq_iff)
qed

lemma pct_6200_4000: "js_round (fmul (fdiv (Num 6200) (Num 4000)) (Num 100)) = Num 155"
proof -
  have 1: "fdiv (Num 6200) (Num 4000) = Num (6980579422424269 / 4503599627370496)"
    by (simp add: fdiv_Num round_double_eq [where e = "0" and m = 6980579422424269])
  have 2: "fmul (Num (6980579422424269 / 4503599627370496)) (Num 100) = Num 155"
    by (simp add: fmul_Num round_double_eq [where e = "7" and m = 5453577673768960])
  show ?thesis
    by (simp only: 1 2) (simp add: floor_eq_iff)
qed

lemma pct_4500_3000: "js_round (fmul (fdiv (Num 4500) (Num 3000)) (Num 100)) = Num 150"
proof -
  have 1: "fdiv (Num 4500) (Num 3000) = Num (3 / 2)"
    by (simp add: fdiv_Num round_double_eq [where e = "0" and m = 6755399441055744])
  have 2: "fmul (Num (3 / 2)) (Num 100) = Num 150"
    by (simp add: fmul_Num round_double_eq [where e = "7" and m = 5277655813324800])
  show ?thesis
    by (simp only: 1 2) (simp add: floor_eq_iff)
qed

lemma pct_3800_5000: "js_round (fmul (fdiv (Num 3800) (Num 5000)) (Num 100)) = Num 76"
proof -
  have 1: "fdiv (Num 3800) (Num 5000) = Num (3422735716801577 / 4503599627370496)"
    by (simp add: fdiv_Num round_double_eq [where e = "-1" and m = 6845471433603154])
  have 2: "fmul (Num (3422735716801577 / 4503599627370496)) (Num 100) = Num 76"
    by (simp add: fmul_Num round_double_eq [where e = "6" and m = 5348024557502464])
  show ?thesis
    by (simp only: 1 2) (simp add: floor_eq_iff)
qed

lemma pct_3450_5000: "js_round (fmul (fdiv (Num 3450) (Num 5000)) (Num 100)) = Num 69"
proof -
  have 1: "fdiv (Num 3450) (Num 5000) = Num (1553741871442821 / 2251799813685248)"
    by (simp add: fdiv_Num round_double_eq [where e = "-1" and m = 6214967485771284])
  have 2: "fmul (Num (1553741871442821 / 2251799813685248)) (Num 100) = Num 69"
    by (simp add: fmul_Num round_double_eq [where e = "6" and m = 4855443348258816])
  show ?thesis
    by (simp only: 1 2) (simp add: floor_eq_iff)
qed

lemma pct_2100_3000: "js_round (fmul (fdiv (Num 2100) (Num 3000)) (Num 100)) = Num 70"
proof -
  have 1: "fdiv (Num 2100) (Num 3000) = Num (3152519739159347 / 4503599627370496)"
    by (simp add: fdiv_Num round_double_eq [where e = "-1" and m = 6305039478318694])
  have 2: "fmul (Num (3152519739159347 / 4503599627370496)) (Num 100) = Num 70"
    by (simp add: fmul_Num round_double_eq [where e = "6" and m = 4925812092436480])
  show ?thesis
    by (simp only: 1 2) (simp add: floor_eq_iff)
qed

lemma pct_8040_10000: "js_round (fmul (fdiv (Num 8040) (Num 10000)) (Num 100)) = Num 80"
proof -
  have 1: "fdiv (Num 8040) (Num 10000) = Num (3620894100405879 / 4503599627370496)"
    by (simp add: fdiv_Num round_double_eq [where e = "-1" and m = 7241788200811758])
  have 2: "fmul (Num (3620894100405879 / 4503599627370496)) (Num 100) = Num (2828823515942093 / 35184372088832)"
    by (simp add: fmul_Num round_double_eq [where e = "6" and m = 5657647031884186])
  show ?thesis
    by (simp only: 1 2) (simp add: floor_eq_iff)
qed

lemma pct_8050_10000: "js_round (fmul (fdiv (Num 8050) (Num 10000)) (Num 100)) = Num 81"
proof -
  have 1: "fdiv (Num 8050) (Num 10000) = Num (7250795400066499 / 9007199254740992)"
    by (simp add: fdiv_Num round_double_eq [where e = "-1" and m = 7250795400066499])
  have 2: "fmul (Num (7250795400066499 / 9007199254740992)) (Num 100) = Num (161 / 2)"
    by (simp add: fmul_Num round_double_eq [where e = "6" and m = 5664683906301952])
  show ?thesis
    by (simp only: 1 2) (simp add: floor_eq_iff)
qed

lemma pct_below_8050_10000: "js_round (fmul (fdiv (Num (8851068603596799 / 1099511627776)) (Num 10000)) (Num 100)) = Num 81"
proof -
  have 1: "fdiv (Num (8851068603596799 / 1099511627776)) (Num 10000) = Num (3625397700033249 / 4503599627370496)"
    by (simp add: fdiv_Num round_double_eq [where e = "-1" and m = 7250795400066498])
  have 2: "fmul (Num (3625397700033249 / 4503599627370496)) (Num 100) = Num (161 / 2)"
    by (simp add: fmul_Num round_double_eq [where e = "6" and m = 5664683906301952])
  show ?thesis
    by (simp only: 1 2) (simp add: floor_eq_iff)
qed

lemma pct_10050_10000: "js_round (fmul (fdiv (Num 10050) (Num 10000)) (Num 100)) = Num 100"
proof -
  have 1: "fdiv (Num 10050) (Num 10000) = Num (1131529406376837 / 1125899906842624)"
    by (simp add: fdiv_Num round_double_eq [where e = "0" and m = 4526117625507348])
  have 2: "fmul (Num (1131529406376837 / 1125899906842624)) (Num 100) = Num (7072058789855231 / 70368744177664)"
    by (simp add: fmul_Num round_double_eq [where e = "6" and m = 7072058789855231])
  show ?thesis
    by (simp only: 1 2) (simp add: floor_eq_iff)
qed

lemma pct_10100_10000: "js_round (fmul (fdiv (Num 10100) (Num 10000)) (Num 100)) = Num 101"
proof -
  have 1: "fdiv (Num 10100) (Num 10000) = Num (4548635623644201 / 4503599627370496)"
    by (simp add: fdiv_Num round_double_eq [where e = "0" and m = 4548635623644201])
  have 2: "fmul (Num (4548635623644201 / 4503599627370496)) (Num 100) = Num 101"
    by (simp add: fmul_Num round_double_eq [where e = "6" and m = 7107243161944064])
  show ?thesis
    by (simp only: 1 2) (simp add: floor_eq_iff)
qed

lemma pct_8000_10000: "js_round (fmul (fdiv (Num 8000) (Num 10000)) (Num 100)) = Num 80"
proof -
  have 1: "fdiv (Num 8000) (Num 10000) = Num (3602879701896397 / 4503599627370496)"
    by (simp add: fdiv_Num round_double_eq [where e = "-1" and m = 7205759403792794])
  have 2: "fmul (Num (3602879701896397 / 4503599627370496)) (Num 100) = Num 80"
    by (simp add: fmul_Num round_double_eq [where e = "6" and m = 5629499534213120])
  show ?thesis
    by (simp only: 1 2) (simp add: floor_eq_iff)
qed

lemma pct_5000_4000: "js_round (fmul (fdiv (Num 5000) (Num 4000)) (Num 100)) = Num 125"
proof -
  have 1: "fdiv (Num 5000) (Num 4000) = Num (5 / 4)"
    by (simp add: fdiv_Num round_double_eq [where e = "0" and m = 5629499534213120])
  have 2: "fmul (Num (5 / 4)) (Num 100) = Num 125"
    by (simp add: fmul_Num round_double_eq [where e = "6" and m = 8796093022208000])
  show ?thesis
    by (simp only: 1 2) (simp add: floor_eq_iff)
qed

lemma pct_4020_4000: "js_round (fmul (fdiv (Num 4020) (Num 4000)) (Num 100)) = Num 100"
proof -
  have 1: "fdiv (Num 4020) (Num 4000) = Num (1131529406376837 / 1125899906842624)"
    by (simp add: fdiv_Num round_double_eq [where e = "0" and m = 4526117625507348])
  have 2: "fmul (Num (1131529406376837 / 1125899906842624)) (Num 100) = Num (7072058789855231 / 70368744177664)"
    by (simp add: fmul_Num round_double_eq [where e = "6" and m = 7072058789855231])
  show ?thesis
    by (simp only: 1 2) (simp add: floor_eq_iff)
qed

lemma pct_3219_4000: "js_round (fmul (fdiv (Num 3219) (Num 4000)) (Num 100)) = Num 80"
proof -
  have 1: "fdiv (Num 3219) (Num 4000) = Num (7248543600252813 / 9007199254740992)"
    by (simp add: fdiv_Num round_double_eq [where e = "-1" and m = 7248543600252813])
  have 2: "fmul (Num (7248543600252813 / 9007199254740992)) (Num 100) = Num (2831462343848755 / 35184372088832)"
    by (simp add: fmul_Num round_double_eq [where e = "6" and m = 5662924687697510])
  show ?thesis
    by (simp only: 1 2) (simp add: floor_eq_iff)
qed

lemma pct_3220_4000: "js_round (fmul (fdiv (Num 3220) (Num 4000)) (Num 100)) = Num 81"
proof -
  have 1: "fdiv (Num 3220) (Num 4000) = Num (7250795400066499 / 9007199254740992)"
    by (simp add: fdiv_Num round_double_eq [where e = "-1" and m = 7250795400066499])
  have 2: "fmul (Num (7250795400066499 / 9007199254740992)) (Num 100) = Num (161 / 2)"
    by (simp add: fmul_Num round_double_eq [where e = "6" and m = 5664683906301952])
  show ?thesis
    by (simp only: 1 2) (simp add: floor_eq_iff)
qed

lemma pct_below_3220_4000: "js_round (fmul (fdiv (Num (7080854882877439 / 2199023255552)) (Num 4000)) (Num 100)) = Num 81"
proof -
  have 1: "fdiv (Num (7080854882877439 / 2199023255552)) (Num 4000) = Num (3625397700033249 / 4503599627370496)"
    by (simp add: fdiv_Num round_double_eq [where e = "-1" and m = 7250795400066498])
  have 2: "fmul (Num (3625397700033249 / 4503599627370496)) (Num 100) = Num (161 / 2)"
    by (simp add: fmul_Num round_double_eq [where e = "6" and m = 5664683906301952])
  show ?thesis
    by (simp only: 1 2) (simp add: floor_eq_iff)
qed

text \<open>
  The sample rows of the draft carry the percentage the dashboard computes, and the first
  three of them alert.
\<close>

lemma draft_categoryData_alerts:
  "map (\<lambda>r. row_percentage r = percentage_of (row_total r) (row_budget r)) draft_categoryData
     = [True, True, True, True, True, True]
   \<and> map (\<lambda>r. budget_alert_text (row_percentage r)) draft_categoryData
     = [Some (warning_sign @ '' Over Budget''), Some (warning_sign @ '' Over Budget''),
        Some (warning_sign @ '' Over Budget''), None, None, None]"
  by (simp add: draft_categoryData_def budget_alert_text_def pct_10500_10000 pct_6200_4000
      pct_4500_3000 pct_3800_5000 pct_3450_5000 pct_2100_3000)

lemma budget_for_own: "map_of BUDGET_GUESSES c = Some L \<Longrightarrow> budget_for c = Own L"
  by (simp add: budget_for_def budget_member_def)

lemma budget_limit_positive: "map_of BUDGET_GUESSES c = Some L \<Longrightarrow> 0 < L"
  by (simp add: BUDGET_GUESSES_def split: if_splits)

text \<open>
  How the two roundings of the doubles and \<open>Math.round\<close> place the percentage of a
  total \<open>a\<close> against a positive limit \<open>L\<close>: it exceeds 80 from 80.5 per cent of the limit
  on and does not up to 80.49999999 per cent; it exceeds 100 from 100.50000001 per cent
  on and does not up to 100.5 per cent.
\<close>

lemma percent_alert:
  assumes "0 < L" "161 * L \<le> 200 * a"
  shows "gt (js_round (fmul (fdiv (Num a) (Num L)) (Num 100))) 80"
proof -
  have t: "161 / 200 \<le> a / L"
    using assms by (simp add: pos_le_divide_eq)
  have A: "at_least (fdiv (Num a) (Num L)) (of_int 7250795400066499 * 2 powi (- 1 - 52))"
    using assms(1) t by (rule fdiv_lower) simp_all
  have B: "at_least (fmul (fdiv (Num a) (Num L)) (Num 100))
             (of_int 5664683906301952 * 2 powi (6 - 52))"
    using A by (rule fmul_lower) simp_all
  have "gt (js_round (fmul (fdiv (Num a) (Num L)) (Num 100))) (of_int 80)"
    using B by (rule js_round_lower) simp_all
  then show ?thesis
    by simp
qed

lemma percent_no_alert:
  assumes "0 < L" "10000000000 * a \<le> 8049999999 * L"
  shows "\<not> gt (js_round (fmul (fdiv (Num a) (Num L)) (Num 100))) 80"
proof -
  have t: "a / L \<le> 8049999999 / 10000000000"
    using assms by (simp add: pos_divide_le_eq)
  have A: "at_most (fdiv (Num a) (Num L)) (of_int 7250795399165779 * 2 powi (- 1 - 52))"
    using assms(1) t by (rule fdiv_upper) simp_all
  have B: "at_most (fmul (fdiv (Num a) (Num L)) (Num 100))
             (of_int 5664683905598265 * 2 powi (6 - 52))"
    using A by (rule fmul_upper) simp_all
  have "\<not> gt (js_round (fmul (fdiv (Num a) (Num L)) (Num 100))) (of_int 80)"
    using B by (rule js_round_upper) simp_all
  then show ?thesis
    by simp
qed

lemma percent_over:
  assumes "0 < L" "10050000001 * L \<le> 10000000000 * a"
  shows "gt (js_round (fmul (fdiv (Num a) (Num L)) (Num 100))) 100"
proof -
  have t: "10050000001 / 10000000000 \<le> a / L"
    using assms by (simp add: pos_le_divide_eq)
  have A: "at_least (fdiv (Num a) (Num L)) (of_int 4526117625957708 * 2 powi (0 - 52))"
    using assms(1) t by (rule fdiv_lower) simp_all
  have B: "at_least (fmul (fdiv (Num a) (Num L)) (Num 100))
             (of_int 7072058789855232 * 2 powi (6 - 52))"
    using A by (rule fmul_lower) simp_all
  have "gt (js_round (fmul (fdiv (Num a) (Num L)) (Num 100))) (of_int 100)"
    using B by (rule js_round_lower) simp_all
  then show ?thesis
    by simp
qed

lemma percent_not_over:
  assumes "0 < L" "1000 * a \<le> 1005 * L"
  shows "\<not> gt (js_round (fmul (fdiv (Num a) (Num L)) (Num 100))) 100"
proof -
  have t: "a / L \<le> 1005 / 1000"
    using assms by (simp add: pos_divide_le_eq)
  have A: "at_most (fdiv (Num a) (Num L)) (of_int 4526117625507348 * 2 powi (0 - 52))"
    using assms(1) t by (rule fdiv_upper) simp_all
  have B: "at_most (fmul (fdiv (Num a) (Num L)) (Num 100))
             (of_int 7072058789855231 * 2 powi (6 - 52))"
    using A by (rule fmul_upper) simp_all
  have "\<not> gt (js_round (fmul (fdiv (Num a) (Num L)) (Num 100))) (of_int 100)"
    using B by (rule js_round_upper) simp_all
  then show ?thesis
    by simp
qed

lemma gt_mono: "gt n y \<Longrightarrow> x \<le> y \<Longrightarrow> gt n x"
  by (cases n) simp_all

text \<open>The alert of a row whose category is measured against the limit \<open>L\<close>.\<close>

lemma row_alert_own:
  assumes "budget_for c = Own L" "0 < L"
  shows "row_alert \<lparr>ct_category = c, ct_amount = amount\<rparr>
           = budget_alert_text (js_round (fmul (fdiv amount (Num L)) (Num 100)))"
  using assms by (simp add: row_alert_def category_row_of_def)

lemma row_alert_bounds:
  assumes "budget_for c = Own L" "0 < L"
  shows "(161 * L \<le> 200 * spent \<longrightarrow>
            row_alert \<lparr>ct_category = c, ct_amount = Num spent\<rparr> \<noteq> None)
       \<and> (10000000000 * spent \<le> 8049999999 * L \<longrightarrow>
            row_alert \<lparr>ct_category = c, ct_amount = Num spent\<rparr> = None)
       \<and> (10050000001 * L \<le> 10000000000 * spent \<longrightarrow>
            row_alert \<lparr>ct_category = c, ct_amount = Num spent\<rparr>
              = Some (warning_sign @ '' Over Budget''))
       \<and> (1000 * spent \<le> 1005 * L \<longrightarrow>
            row_alert \<lparr>ct_category = c, ct_amount = Num spent\<rparr>
              \<noteq> Some (warning_sign @ '' Over Budget''))"
proof -
  have 1: "row_alert \<lparr>ct_category = c, ct_amount = Num spent\<rparr> \<noteq> None"
    if "161 * L \<le> 200 * spent"
    using percent_alert [OF assms(2) that]
    by (simp add: row_alert_own [OF assms] budget_alert_text_def)
  have 2: "row_alert \<lparr>ct_category = c, ct_amount = Num spent\<rparr> = None"
    if "10000000000 * spent \<le> 8049999999 * L"
    using percent_no_alert [OF assms(2) that]
    by (simp add: row_alert_own [OF assms] budget_alert_text_def)
  have "161 * L \<le> 200 * spent" if "10050000001 * L \<le> 10000000000 * spent"
    using that assms(2) by linarith
  then have 3: "row_alert \<lparr>ct_category = c, ct_amount = Num spent\<rparr>
              = Some (warning_sign @ '' Over Budget'')"
    if "10050000001 * L \<le> 10000000000 * spent"
    using percent_over [OF assms(2) that] percent_alert [OF assms(2)] that
    by (simp add: row_alert_own [OF assms] budget_alert_text_def)
  have 4: "row_alert \<lparr>ct_category = c, ct_amount = Num spent\<rparr>
              \<noteq> Some (warning_sign @ '' Over Budget'')"
    if "1000 * spent \<le> 1005 * L"
    using percent_not_over [OF assms(2) that]
    by (simp add: row_alert_own [OF assms] budget_alert_text_def warning_sign_def)
  show ?thesis
    using 1 2 3 4 by blast
qed

text \<open>
  Claim C1, as stated: for every category with a configured limit, an alert is rendered
  exactly when \<open>total / limit * 100 > 80\<close>. The dashboard compares the percentage after
  \<open>Math.round\<close>, so the statement fails between 80 and 80.5: food (limit 10000) with
  8040 spent is at 80.4 per cent and renders no alert.
\<close>

theorem C1_unrounded_counterexample:
  "\<not> (\<forall>c L spent. map_of BUDGET_GUESSES c = Some L \<longrightarrow>
        (row_alert \<lparr>ct_category = c, ct_amount = Num spent\<rparr> \<noteq> None) = (80 < spent / L * 100))"
proof
  assume a: "\<forall>c L spent. map_of BUDGET_GUESSES c = Some L \<longrightarrow>
        (row_alert \<lparr>ct_category = c, ct_amount = Num spent\<rparr> \<noteq> None) = (80 < spent / L * 100)"
  have own: "map_of BUDGET_GUESSES ''food'' = Some 10000"
    by (simp add: BUDGET_GUESSES_def)
  have "row_alert \<lparr>ct_category = ''food'', ct_amount = Num 8040\<rparr> = None"
    by (simp add: row_alert_def category_row_of_def budget_for_own [OF own]
        budget_alert_text_def pct_8040_10000)
  moreover have "(80::rat) < 8040 / 10000 * 100"
    by simp
  ultimately show False
    using a own by blast
qed

text \<open>
  Claim C1, amended: for every category with a configured limit \<open>L\<close>, the percentage of
  its row is \<open>Math.round((total / L) * 100)\<close>, computed in doubles; the alert text is
  rendered exactly when that rounded percentage exceeds 80, and reads "Over Budget" when
  it exceeds 100 and "Warning" otherwise. In terms of the exact quotient: a total of at
  least 80.5 per cent of the limit alerts and one of at most 80.49999999 per cent does
  not; a total of at least 100.50000001 per cent of the limit is over budget and one of at
  most 100.5 per cent is not (100.5 per cent computes to 100.49999999999999 and rounds
  to 100).
\<close>

theorem C1_alert_on_rounded_percentage:
  assumes "map_of BUDGET_GUESSES c = Some L"
  shows "row_percentage (category_row_of \<lparr>ct_category = c, ct_amount = amount\<rparr>)
           = js_round (fmul (fdiv amount (Num L)) (Num 100))
       \<and> row_alert \<lparr>ct_category = c, ct_amount = amount\<rparr>
           = (if gt (js_round (fmul (fdiv amount (Num L)) (Num 100))) 100
              then Some (warning_sign @ '' Over Budget'')
              else if gt (js_round (fmul (fdiv amount (Num L)) (Num 100))) 80
              then Some (warning_sign @ '' Warning'')
              else None)
       \<and> (161 * L \<le> 200 * spent \<longrightarrow>
            row_alert \<lparr>ct_category = c, ct_amount = Num spent\<rparr> \<noteq> None)
       \<and> (10000000000 * spent \<le> 8049999999 * L \<longrightarrow>
            row_alert \<lparr>ct_category = c, ct_amount = Num spent\<rparr> = None)
       \<and> (10050000001 * L \<le> 10000000000 * spent \<longrightarrow>
            row_alert \<lparr>ct_category = c, ct_amount = Num spent\<rparr>
              = Some (warning_sign @ '' Over Budget''))
       \<and> (1000 * spent \<le> 1005 * L \<longrightarrow>
            row_alert \<lparr>ct_category = c, ct_amount = Num spent\<rparr>
              \<noteq> Some (warning_sign @ '' Over Budget''))"
proof -
  have L: "0 < L"
    using assms by (rule budget_limit_positive)
  have b: "budget_for c = Own L"
    using assms by (rule budget_for_own)
  have p: "row_percentage (category_row_of \<lparr>ct_category = c, ct_amount = amount\<rparr>)
           = js_round (fmul (fdiv amount (Num L)) (Num 100))"
    using L by (simp add: category_row_of_def b)
  have a: "row_alert \<lparr>ct_category = c, ct_amount = amount\<rparr>
           = (if gt (js_round (fmul (fdiv amount (Num L)) (Num 100))) 100
              then Some (warning_sign @ '' Over Budget'')
              else if gt (js_round (fmul (fdiv amount (Num L)) (Num 100))) 80
              then Some (warning_sign @ '' Warning'')
              else None)"
    using gt_mono [of "js_round (fmul (fdiv amount (Num L)) (Num 100))" 100 80]
    by (auto simp: row_alert_own [OF b L] budget_alert_text_def)
  show ?thesis
    using p a row_alert_bounds [OF b L, of spent] by blast
qed

theorem C1_alert_on_rounded_percentage_witness:
  "map_of BUDGET_GUESSES ''food'' = Some 10000
   \<and> row_alert \<lparr>ct_category = ''food'', ct_amount = Num 8050\<rparr> = Some (warning_sign @ '' Warning'')
   \<and> row_alert \<lparr>ct_category = ''food'', ct_amount = Num (8851068603596799 / 1099511627776)\<rparr>
       = Some (warning_sign @ '' Warning'')
   \<and> row_alert \<lparr>ct_category = ''food'', ct_amount = Num 10050\<rparr> = Some (warning_sign @ '' Warning'')
   \<and> row_alert \<lparr>ct_category = ''food'', ct_amount = Num 10100\<rparr> = Some (warning_sign @ '' Over Budget'')
   \<and> row_alert \<lparr>ct_category = ''food'', ct_amount = Num 8000\<rparr> = None
   \<and> row_alert \<lparr>ct_category = ''food'', ct_amount = PosInf\<rparr> = Some (warning_sign @ '' Over Budget'')"
proof -
  have own: "map_of BUDGET_GUESSES ''food'' = Some 10000"
    by (simp add: BUDGET_GUESSES_def)
  note v = pct_8050_10000 pct_below_8050_10000 pct_10050_10000 pct_10100_10000 pct_8000_10000
  have i: "js_round (fmul (fdiv PosInf (Num 10000)) (Num 100)) = PosInf"
    by (simp add: fdiv_def fmul_def is_inf_def is_zero_def signed_inf_def)
  note t = C1_alert_on_rounded_percentage [OF own]
  show ?thesis
    using own t [of "Num 8050" 8050] t [of "Num (8851068603596799 / 1099511627776)" 8050]
      t [of "Num 10050" 10050] t [of "Num 10100" 10100]
      t [of "Num 8000" 8000] t [of PosInf 0]
    by (simp add: v i)
qed

text \<open>
  Claim C2, as stated: a category with no configured limit never alerts. The dashboard
  reads \<open>BUDGET_GUESSES[category] ?? 4000\<close>: a category that is not in the table is
  measured against 4000, and alerts. "travel" with 5000 spent is over budget.
\<close>

theorem C2_default_limit_counterexample:
  "map_of BUDGET_GUESSES ''travel'' = None
   \<and> row_alert \<lparr>ct_category = ''travel'', ct_amount = Num 5000\<rparr>
       = Some (warning_sign @ '' Over Budget'')"
proof -
  have "budget_for ''travel'' = Own 4000"
    by (simp add: budget_for_def budget_member_def BUDGET_GUESSES_def object_prototype_names_def)
  then show ?thesis
    by (simp add: row_alert_def category_row_of_def budget_alert_text_def pct_5000_4000)
      (simp add: BUDGET_GUESSES_def)
qed

text \<open>
  Claim C2, amended: a category with no entry in \<open>BUDGET_GUESSES\<close> is evaluated against
  the default limit 4000, like a configured one: its alert is the one of
  \<open>Math.round((total / 4000) * 100)\<close>, computed in doubles, so a total of 3220 or more
  alerts and one of 3219.99 or less does not, and a total of 4020.01 or more is over budget
  and one of 4020 or less is not. The only categories that never alert are those named
  like a member of \<open>Object.prototype\<close>, whose percentage is NaN.
\<close>

theorem C2_unconfigured_category_uses_default:
  assumes "map_of BUDGET_GUESSES c = None"
  shows "(if c \<in> set object_prototype_names
          then row_alert \<lparr>ct_category = c, ct_amount = amount\<rparr> = None
          else row_budget (category_row_of \<lparr>ct_category = c, ct_amount = amount\<rparr>) = Own 4000
             \<and> row_alert \<lparr>ct_category = c, ct_amount = amount\<rparr>
                 = budget_alert_text (js_round (fmul (fdiv amount (Num 4000)) (Num 100)))
             \<and> (3220 \<le> spent \<longrightarrow>
                  row_alert \<lparr>ct_category = c, ct_amount = Num spent\<rparr> \<noteq> None)
             \<and> (100 * spent \<le> 321999 \<longrightarrow>
                  row_alert \<lparr>ct_category = c, ct_amount = Num spent\<rparr> = None)
             \<and> (402001 \<le> 100 * spent \<longrightarrow>
                  row_alert \<lparr>ct_category = c, ct_amount = Num spent\<rparr>
                    = Some (warning_sign @ '' Over Budget''))
             \<and> (spent \<le> 4020 \<longrightarrow>
                  row_alert \<lparr>ct_category = c, ct_amount = Num spent\<rparr>
                    \<noteq> Some (warning_sign @ '' Over Budget'')))"
proof (cases "c \<in> set object_prototype_names")
  case True
  then show ?thesis
    using assms
    by (simp add: row_alert_def category_row_of_def budget_for_def budget_member_def
        budget_alert_text_def)
next
  case False
  have b: "budget_for c = Own 4000"
    using assms False by (simp add: budget_for_def budget_member_def)
  have 1: "row_budget (category_row_of \<lparr>ct_category = c, ct_amount = amount\<rparr>) = Own 4000"
    by (simp add: category_row_of_def b)
  have 2: "row_alert \<lparr>ct_category = c, ct_amount = amount\<rparr>
                 = budget_alert_text (js_round (fmul (fdiv amount (Num 4000)) (Num 100)))"
    by (rule row_alert_own [OF b]) simp
  have 3: "row_alert \<lparr>ct_category = c, ct_amount = Num spent\<rparr> \<noteq> None"
    if "3220 \<le> spent"
    using row_alert_bounds [OF b, of spent] that by simp
  have 4: "row_alert \<lparr>ct_category = c, ct_amount = Num spent\<rparr> = None"
    if "100 * spent \<le> 321999"
    using row_alert_bounds [OF b, of spent] that by simp
  have 5: "row_alert \<lparr>ct_category = c, ct_amount = Num spent\<rparr>
                    = Some (warning_sign @ '' Over Budget'')"
    if "402001 \<le> 100 * spent"
    using row_alert_bounds [OF b, of spent] that by simp
  have 6: "row_alert \<lparr>ct_category = c, ct_amount = Num spent\<rparr>
                    \<noteq> Some (warning_sign @ '' Over Budget'')"
    if "spent \<le> 4020"
    using row_alert_bounds [OF b, of spent] that by simp
  show ?thesis
    using False 1 2 3 4 5 6 by (simp only: if_False) blast
qed

theorem C2_unconfigured_category_uses_default_witness:
  "map_of BUDGET_GUESSES ''travel'' = None
   \<and> row_alert \<lparr>ct_category = ''travel'', ct_amount = Num 3219\<rparr> = None
   \<and> row_alert \<lparr>ct_category = ''travel'', ct_amount = Num 3220\<rparr> = Some (warning_sign @ '' Warning'')
   \<and> row_alert \<lparr>ct_category = ''travel'', ct_amount = Num (7080854882877439 / 2199023255552)\<rparr>
       = Some (warning_sign @ '' Warning'')
   \<and> row_alert \<lparr>ct_category = ''travel'', ct_amount = Num 4020\<rparr> = Some (warning_sign @ '' Warning'')
   \<and> row_alert \<lparr>ct_category = ''travel'', ct_amount = Num 4021\<rparr>
       = Some (warning_sign @ '' Over Budget'')
   \<and> row_alert \<lparr>ct_category = ''constructor'', ct_amount = Num 5000\<rparr> = None"
proof -
  have t: "map_of BUDGET_GUESSES ''travel'' = None"
    and k: "map_of BUDGET_GUESSES ''constructor'' = None"
    by (simp_all add: BUDGET_GUESSES_def)
  have n: "''travel'' \<notin> set object_prototype_names"
    and i: "''constructor'' \<in> set object_prototype_names"
    by (simp_all add: object_prototype_names_def)
  note v = pct_3219_4000 pct_3220_4000 pct_below_3220_4000 pct_4020_4000
  note a = C2_unconfigured_category_uses_default [OF t, unfolded if_not_P [OF n]]
  note c = C2_unconfigured_category_uses_default [OF k, of "Num 5000", unfolded if_P [OF i]]
  show ?thesis
    using t a [of "Num 3219" 3219] a [of "Num 3220" 3220]
      a [of "Num (7080854882877439 / 2199023255552)" 3220] a [of "Num 4020" 4020]
      a [of "Num 0" 4021] c
    by (simp add: v budget_alert_text_def)
qed

section \<open>Currency formatting (frontend/src/App.js)\<close>

text \<open>The bytes of the rupee sign U+20B9 in UTF-8.\<close>

definition rupee_sign :: string where
  "rupee_sign = [CHR 0xE2, CHR 0x82, CHR 0xB9]"

text \<open>The bytes of the infinity sign U+221E in UTF-8.\<close>

definition infinity_sign :: string where
  "infinity_sign = [CHR 0xE2, CHR 0x88, CHR 0x9E]"

text \<open>
  The host's \<open>Intl.NumberFormat('en-IN', {style: 'currency', currency: 'INR',
  minimumFractionDigits: 2, maximumFractionDigits: 2}).format\<close>. A finite number: the
  magnitude in hundredths as the host rounds it, the integer digits grouped the Indian
  way (the last three, then pairs), a point and two fraction digits, a minus sign before
  the currency sign for a negative number, the negative zero among them. An infinity:
  the infinity sign after the currency sign, and no fraction digits.
\<close>

fun group_pairs :: "string \<Rightarrow> string" where
  "group_pairs (a # b # c # rest) = a # b # CHR '','' # group_pairs (c # rest)"
| "group_pairs ds = ds"

text \<open>\<open>group_indian\<close> works on the digits in reverse, least significant first.\<close>

fun group_indian :: "string \<Rightarrow> string" where
  "group_indian (a # b # c # d # rest) = a # b # c # CHR '','' # group_pairs (d # rest)"
| "group_indian ds = ds"

definition intl_format_inr :: "host \<Rightarrow> jsnum \<Rightarrow> string" where
  "intl_format_inr h n =
    (case n of
       NaN \<Rightarrow> rupee_sign @ ''NaN''
     | PosInf \<Rightarrow> rupee_sign @ infinity_sign
     | NegInf \<Rightarrow> ''-'' @ rupee_sign @ infinity_sign
     | NegZero \<Rightarrow> ''-'' @ rupee_sign @ ''0.00''
     | Num x \<Rightarrow>
        (let hundredths = round_hundredths h \<bar>x\<bar>;
             whole = hundredths div 100;
             frac = hundredths mod 100
         in (if x < 0 then ''-'' else []) @ rupee_sign
            @ rev (group_indian (rev (show_nat whole)))
            @ ''.'' @ [digit_char (frac div 10), digit_char (frac mod 10)]))"

text \<open>
  \<open>formatINR\<close>; \<open>None\<close> when \<open>Number(value)\<close> throws a TypeError, which leaves the
  function.
\<close>

definition formatINR :: "host \<Rightarrow> jsval \<Rightarrow> string option" where
  "formatINR h v =
    (if v = JNull \<or> v = JUndefined then Some (rupee_sign @ ''0.00'')
     else (case to_number h v of
         None \<Rightarrow> None
       | Some n \<Rightarrow> if n = NaN then Some (rupee_sign @ ''0.00'') else Some (intl_format_inr h n)))"

subsection \<open>Properties of \<open>formatINR\<close>\<close>

definition decimal_digits :: "char set" where
  "decimal_digits = set ''0123456789''"

lemma digit_char_decimal: "digit_char n \<in> decimal_digits"
proof -
  have "n mod 10 < length ''0123456789''"
    by simp
  then show ?thesis
    unfolding digit_char_def decimal_digits_def by (rule nth_mem)
qed

lemma show_nat_decimal: "set (show_nat n) \<subseteq> decimal_digits"
proof (induction n rule: show_nat.induct)
  case (1 n)
  show ?case
  proof (cases "n < 10")
    case True
    then show ?thesis
      by (subst show_nat.simps) (simp add: digit_char_decimal)
  next
    case False
    with 1 show ?thesis
      by (subst show_nat.simps) (simp add: digit_char_decimal)
  qed
qed

lemma group_pairs_chars: "set (group_pairs ds) \<subseteq> insert CHR '','' (set ds)"
  by (induction ds rule: group_pairs.induct) auto

lemma group_indian_chars: "set (group_indian ds) \<subseteq> insert CHR '','' (set ds)"
proof (induction ds rule: group_indian.induct)
  case (1 a b c d rest)
  show ?case
    using group_pairs_chars [of "d # rest"] by auto
qed simp_all

lemma point_not_decimal: "CHR ''.'' \<notin> insert CHR '','' decimal_digits"
  by (simp add: decimal_digits_def)

lemma grouped_digits_no_point: "CHR ''.'' \<notin> set (rev (group_indian (rev (show_nat n))))"
proof -
  have "set (rev (group_indian (rev (show_nat n)))) \<subseteq> insert CHR '','' decimal_digits"
    using group_indian_chars [of "rev (show_nat n)"] show_nat_decimal [of n] by fastforce
  then show ?thesis
    using point_not_decimal by blast
qed


lemma intl_format_inr_shape:
  assumes "n = Num x \<or> n = NegZero"
  shows "\<exists>body d1 d2. intl_format_inr h n = body @ ''.'' @ [d1, d2]
      \<and> CHR ''.'' \<notin> set body \<and> d1 \<in> decimal_digits \<and> d2 \<in> decimal_digits"
proof (cases "n = NegZero")
  case True
  have "intl_format_inr h NegZero = (''-'' @ rupee_sign @ ''0'') @ ''.'' @ [CHR ''0'', CHR ''0'']"
    by (simp add: intl_format_inr_def)
  moreover have "CHR ''.'' \<notin> set (''-'' @ rupee_sign @ ''0'')"
    by (simp add: rupee_sign_def)
  moreover have "CHR ''0'' \<in> decimal_digits"
    by (simp add: decimal_digits_def)
  ultimately show ?thesis
    using True by blast
next
  case False
  then have n: "n = Num x"
    using assms by simp
  define hundredths where "hundredths = round_hundredths h \<bar>x\<bar>"
  define body where "body = (if x < 0 then ''-'' else []) @ rupee_sign
        @ rev (group_indian (rev (show_nat (hundredths div 100))))"
  have "intl_format_inr h n
      = body @ ''.'' @ [digit_char (hundredths mod 100 div 10), digit_char (hundredths mod 100 mod 10)]"
    by (simp add: n intl_format_inr_def Let_def body_def hundredths_def)
  moreover have "CHR ''.'' \<notin> set body"
    using grouped_digits_no_point [of "hundredths div 100"]
    by (simp add: body_def rupee_sign_def)
  ultimately show ?thesis
    using digit_char_decimal by blast
qed

text \<open>
  Claim C8, as stated: \<open>formatINR\<close> returns a string for every input, and every numeric
  input is rendered with exactly two fraction digits. For an object with an own property
  \<open>toString\<close> (as \<open>JSON.parse\<close> makes it from \<open>{"toString": null}\<close>) \<open>Number(value)\<close>
  throws a TypeError and \<open>formatINR\<close> returns nothing; and the number \<open>Infinity\<close> is
  rendered as the rupee sign and the infinity sign, with no fraction digit.
\<close>

theorem C8_not_total_counterexample:
  "formatINR host0 (JObject [(''toString'', JNull)]) = None
   \<and> formatINR host0 (JNumber PosInf) = Some (rupee_sign @ infinity_sign)
   \<and> CHR ''.'' \<notin> set (rupee_sign @ infinity_sign)
   \<and> set (rupee_sign @ infinity_sign) \<inter> decimal_digits = {}"
  by (simp add: formatINR_def own_toString_def intl_format_inr_def rupee_sign_def
      infinity_sign_def decimal_digits_def)

text \<open>
  Claim C8, amended: \<open>formatINR\<close> returns a string for every value whose conversion to a
  number does not throw, and throws the TypeError of the conversion otherwise. For null,
  for undefined and for every value whose numeric conversion is NaN the string is the
  rupee sign followed by \<open>0.00\<close>. For every other value that converts to a finite number
  (the negative zero included) it is the host's rendering of the number as INR currency,
  which ends in a decimal point and exactly two fraction digits. For a value that
  converts to an infinity it is the rupee sign and the infinity sign, after a minus sign
  for the negative one.
\<close>

theorem C8_formatINR_result:
  "(formatINR h v = None) = (to_number h v = None)
   \<and> (v = JNull \<or> v = JUndefined \<or> to_number h v = Some NaN \<longrightarrow>
        formatINR h v = Some (rupee_sign @ ''0.00''))
   \<and> (v \<noteq> JNull \<and> v \<noteq> JUndefined \<and> (to_number h v = Some (Num x) \<or> to_number h v = Some NegZero) \<longrightarrow>
        (\<exists>n. to_number h v = Some n \<and> formatINR h v = Some (intl_format_inr h n))
        \<and> (\<exists>body d1 d2. formatINR h v = Some (body @ ''.'' @ [d1, d2])
              \<and> CHR ''.'' \<notin> set body \<and> d1 \<in> decimal_digits \<and> d2 \<in> decimal_digits))
   \<and> (to_number h v = Some PosInf \<longrightarrow> formatINR h v = Some (rupee_sign @ infinity_sign))
   \<and> (to_number h v = Some NegInf \<longrightarrow> formatINR h v = Some (''-'' @ rupee_sign @ infinity_sign))"
proof -
  have 1: "(formatINR h v = None) = (to_number h v = None)"
    by (cases v) (auto simp: formatINR_def split: option.splits)
  have 2: "v = JNull \<or> v = JUndefined \<or> to_number h v = Some NaN \<longrightarrow>
        formatINR h v = Some (rupee_sign @ ''0.00'')"
    by (auto simp: formatINR_def)
  have 3: "(\<exists>n. to_number h v = Some n \<and> formatINR h v = Some (intl_format_inr h n))
        \<and> (\<exists>body d1 d2. formatINR h v = Some (body @ ''.'' @ [d1, d2])
              \<and> CHR ''.'' \<notin> set body \<and> d1 \<in> decimal_digits \<and> d2 \<in> decimal_digits)"
    if asm: "v \<noteq> JNull \<and> v \<noteq> JUndefined \<and> (to_number h v = Some (Num x) \<or> to_number h v = Some NegZero)"
  proof -
    obtain n where n: "to_number h v = Some n" "n = Num x \<or> n = NegZero"
      using asm by blast
    then have f: "formatINR h v = Some (intl_format_inr h n)"
      using asm by (auto simp: formatINR_def)
    show ?thesis
      using n(1) f intl_format_inr_shape [OF n(2), of h] by auto
  qed
  have 4: "to_number h v = Some PosInf \<longrightarrow> formatINR h v = Some (rupee_sign @ infinity_sign)"
    by (cases v) (auto simp: formatINR_def intl_format_inr_def)
  have 5: "to_number h v = Some NegInf \<longrightarrow> formatINR h v = Some (''-'' @ rupee_sign @ infinity_sign)"
    by (cases v) (auto simp: formatINR_def intl_format_inr_def)
  show ?thesis
    using 1 2 3 4 5 by blast
qed

theorem C8_formatINR_result_witness:
  "formatINR host0 JNull = Some (rupee_sign @ ''0.00'')
   \<and> formatINR host0 JUndefined = Some (rupee_sign @ ''0.00'')
   \<and> formatINR host0 (JString ''abc'') = Some (rupee_sign @ ''0.00'')
   \<and> formatINR host0 (JNumber (Num (- 2469 / 2))) = Some (''-'' @ rupee_sign @ ''1,234.50'')
   \<and> formatINR host0 (JNumber (Num (2469135 / 2))) = Some (rupee_sign @ ''12,34,567.50'')
   \<and> formatINR host0 (JNumber NegZero) = Some (''-'' @ rupee_sign @ ''0.00'')
   \<and> formatINR host0 (JNumber NegInf) = Some (''-'' @ rupee_sign @ infinity_sign)
   \<and> formatINR host0 (JArray [JObject [(''toString'', JNull)]]) = None"
proof -
  have nan: "to_number host0 (JString ''abc'') = Some NaN"
    by (simp add: string_to_number_def trim_def is_space_def host0_def)
  have "\<lfloor>(246901 / 2 :: rat)\<rfloor> = 123450"
    by (simp add: floor_eq_iff)
  then have a: "intl_format_inr host0 (Num (- 2469 / 2)) = ''-'' @ rupee_sign @ ''1,234.50''"
    by (simp add: intl_format_inr_def Let_def show_nat.simps digit_char_def host0_def)
  have "\<lfloor>(246913501 / 2 :: rat)\<rfloor> = 123456750"
    by (simp add: floor_eq_iff)
  then have b: "intl_format_inr host0 (Num (2469135 / 2)) = rupee_sign @ ''12,34,567.50''"
    by (simp add: intl_format_inr_def Let_def show_nat.simps digit_char_def host0_def)
  have z: "intl_format_inr host0 NegZero = ''-'' @ rupee_sign @ ''0.00''"
    by (simp add: intl_format_inr_def)
  have t: "to_number host0 (JArray [JObject [(''toString'', JNull)]]) = None"
    by (simp add: own_toString_def)
  show ?thesis
    using C8_formatINR_result [of host0 JNull 0] C8_formatINR_result [of host0 JUndefined 0]
      C8_formatINR_result [of host0 "JString ''abc''" 0] nan
      C8_formatINR_result [of host0 "JNumber (Num (- 2469 / 2))" "- 2469 / 2"] a
      C8_formatINR_result [of host0 "JNumber (Num (2469135 / 2))" "2469135 / 2"] b
      C8_formatINR_result [of host0 "JNumber NegZero" 0] z
      C8_formatINR_result [of host0 "JNumber NegInf" 0]
      C8_formatINR_result [of host0 "JArray [JObject [(''toString'', JNull)]]" 0] t
    by simp
qed

section \<open>The confirmation dialog (frontend/src/components/ConfirmDialog.js)\<close>

text \<open>What \<open>normalizeOption\<close> returns; \<open>opt_value = None\<close> when the object has no \<open>value\<close>.\<close>

record normalized_option =
  opt_key :: jsval
  opt_label :: jsval
  opt_value :: "jsval option"

text \<open>
  \<open>normalizeOption\<close>; \<open>None\<close> when it throws: \<open>String(option.value ?? option)\<close>, which is
  evaluated when none of \<open>label\<close>, \<open>text\<close> and \<open>command\<close> is truthy, throws a TypeError on a
  value that has no string.
\<close>

definition normalizeOption :: "host \<Rightarrow> jsval \<Rightarrow> normalized_option option" where
  "normalizeOption h option =
    (if \<not> truthy option
     then Some \<lparr>opt_key = JString ''option-null'', opt_label = JString ''Unknown option'',
                opt_value = None\<rparr>
     else (case option of
         JString s \<Rightarrow> Some \<lparr>opt_key = option, opt_label = option, opt_value = Some option\<rparr>
       | _ \<Rightarrow>
         (case js_or_else (get_property option ''label'')
                 (js_or_else (get_property option ''text'')
                   (js_or_else (get_property option ''command'')
                     (map_option JString
                        (to_string h (nullish (get_property option ''value'') option))))) of
            None \<Rightarrow> None
          | Some label \<Rightarrow>
             (let v = nullish (get_property option ''value'')
                        (nullish (get_property option ''command'')
                          (nullish (get_property option ''text'') option))
              in Some \<lparr>opt_key = js_or (get_property option ''key'') label, opt_label = label,
                       opt_value = Some v\<rparr>))))"

subsection \<open>Properties of \<open>normalizeOption\<close>\<close>

text \<open>A value is defined when it is neither \<open>undefined\<close> nor \<open>null\<close>.\<close>

definition defined :: "jsval \<Rightarrow> bool" where
  "defined v = (v \<noteq> JUndefined \<and> v \<noteq> JNull)"

text \<open>
  The label of an option that is neither falsy nor a string: the first truthy one of its
  \<open>label\<close>, \<open>text\<close> and \<open>command\<close>, and else \<open>String(option.value ?? option)\<close>; \<open>None\<close>
  when that conversion throws.
\<close>

definition label_of :: "host \<Rightarrow> jsval \<Rightarrow> jsval option" where
  "label_of h option =
    (if truthy (get_property option ''label'') then Some (get_property option ''label'')
     else if truthy (get_property option ''text'') then Some (get_property option ''text'')
     else if truthy (get_property option ''command'') then Some (get_property option ''command'')
     else map_option JString (to_string h (nullish (get_property option ''value'') option)))"

lemma truthy_defined: "truthy v \<Longrightarrow> defined v"
  by (cases v) (simp_all add: defined_def)

lemma label_of_defined: "label_of h option = Some l \<Longrightarrow> defined l"
  by (auto simp: label_of_def defined_def dest: truthy_defined split: if_splits)

lemma js_or_defined: "defined b \<Longrightarrow> defined (js_or a b)"
  by (cases a) (auto simp: js_or_def defined_def)

lemma normalizeOption_other:
  assumes "truthy option" "\<forall>t. option \<noteq> JString t"
  shows "normalizeOption h option =
     (case label_of h option of
        None \<Rightarrow> None
      | Some label \<Rightarrow>
         Some \<lparr>opt_key = (if truthy (get_property option ''key'') then get_property option ''key''
                          else label),
               opt_label = label,
               opt_value = Some (nullish (get_property option ''value'')
                                   (nullish (get_property option ''command'')
                                     (nullish (get_property option ''text'') option)))\<rparr>)"
  using assms
  by (cases option)
    (simp_all add: normalizeOption_def label_of_def js_or_else_def js_or_def Let_def
      split: option.splits)

lemma normalizeOption_defined:
  assumes "normalizeOption h option = Some r"
  shows "defined (opt_key r) \<and> defined (opt_label r)"
proof (cases "truthy option \<and> (\<forall>t. option \<noteq> JString t)")
  case True
  then obtain l where l: "label_of h option = Some l"
    and r: "r = \<lparr>opt_key = (if truthy (get_property option ''key'') then get_property option ''key''
                          else l),
               opt_label = l,
               opt_value = Some (nullish (get_property option ''value'')
                                   (nullish (get_property option ''command'')
                                     (nullish (get_property option ''text'') option)))\<rparr>"
    using assms by (auto simp: normalizeOption_other split: option.splits)
  show ?thesis
    using label_of_defined [OF l] by (auto simp: r dest: truthy_defined)
next
  case False
  then show ?thesis
    using assms by (auto simp: normalizeOption_def defined_def split: if_splits)
qed

text \<open>
  Claim C9, as stated: \<open>normalizeOption\<close> is total, and every string \<open>s\<close> maps to
  \<open>{key: s, label: s, value: s}\<close>. The guard \<open>if (!option)\<close> comes first and the empty
  string is falsy: it maps to the "Unknown option" entry. And on an object with an own
  property \<open>toString\<close> and no label, text or command (as \<open>JSON.parse\<close> makes it from
  \<open>{"toString": null}\<close>), \<open>String(option.value ?? option)\<close> throws a TypeError.
\<close>

theorem C9_empty_string_counterexample:
  "\<not> (\<forall>h s. normalizeOption h (JString s)
         = Some \<lparr>opt_key = JString s, opt_label = JString s, opt_value = Some (JString s)\<rparr>)
   \<and> normalizeOption host0 (JString [])
       = Some \<lparr>opt_key = JString ''option-null'', opt_label = JString ''Unknown option'',
               opt_value = None\<rparr>
   \<and> normalizeOption host0 (JObject [(''toString'', JNull)]) = None"
proof -
  have e: "normalizeOption host0 (JString [])
       = Some \<lparr>opt_key = JString ''option-null'', opt_label = JString ''Unknown option'',
               opt_value = None\<rparr>"
    by (simp add: normalizeOption_def)
  have "\<not> (\<forall>h s. normalizeOption h (JString s)
         = Some \<lparr>opt_key = JString s, opt_label = JString s, opt_value = Some (JString s)\<rparr>)"
  proof
    assume "\<forall>h s. normalizeOption h (JString s)
         = Some \<lparr>opt_key = JString s, opt_label = JString s, opt_value = Some (JString s)\<rparr>"
    then have "normalizeOption host0 (JString [])
         = Some \<lparr>opt_key = JString [], opt_label = JString [], opt_value = Some (JString [])\<rparr>"
      by blast
    then show False
      by (simp add: e)
  qed
  moreover have "normalizeOption host0 (JObject [(''toString'', JNull)]) = None"
    by (simp add: normalizeOption_def js_or_else_def nullish_def own_toString_def)
  ultimately show ?thesis
    using e by blast
qed

text \<open>
  Claim C9, amended: \<open>normalizeOption\<close> returns a record for every option but one: an
  option that is neither falsy nor a string, has no truthy \<open>label\<close>, \<open>text\<close> or \<open>command\<close>,
  and whose \<open>option.value ?? option\<close> has no string (an object with an own property
  \<open>toString\<close>, or an array that holds one); for that it throws a TypeError. Every falsy
  option (null, undefined, the empty string, 0, NaN, false) maps to
  \<open>{key: 'option-null', label: 'Unknown option'}\<close> with no value; a non-empty string \<open>s\<close>
  maps to \<open>{key: s, label: s, value: s}\<close>; every other option for which it returns maps to
  a record whose key and label are defined, the label being the first truthy one of its
  \<open>label\<close>, \<open>text\<close> and \<open>command\<close>, and else \<open>String(option.value ?? option)\<close>, and the key
  its \<open>key\<close> when truthy, else the label.
\<close>

theorem C9_normalizeOption_shapes:
  "(\<not> truthy option \<longrightarrow>
      normalizeOption h option
        = Some \<lparr>opt_key = JString ''option-null'', opt_label = JString ''Unknown option'',
                 opt_value = None\<rparr>)
   \<and> (s \<noteq> [] \<longrightarrow>
      normalizeOption h (JString s)
        = Some \<lparr>opt_key = JString s, opt_label = JString s, opt_value = Some (JString s)\<rparr>)
   \<and> (normalizeOption h option = None) =
       (truthy option \<and> (\<forall>t. option \<noteq> JString t)
        \<and> \<not> truthy (get_property option ''label'') \<and> \<not> truthy (get_property option ''text'')
        \<and> \<not> truthy (get_property option ''command'')
        \<and> to_string h (nullish (get_property option ''value'') option) = None)
   \<and> (\<forall>r. normalizeOption h option = Some r \<longrightarrow> defined (opt_key r) \<and> defined (opt_label r))
   \<and> (\<forall>r. truthy option \<and> (\<forall>t. option \<noteq> JString t) \<and> normalizeOption h option = Some r \<longrightarrow>
        Some (opt_label r)
          = (if truthy (get_property option ''label'') then Some (get_property option ''label'')
             else if truthy (get_property option ''text'') then Some (get_property option ''text'')
             else if truthy (get_property option ''command'')
             then Some (get_property option ''command'')
             else map_option JString (to_string h (nullish (get_property option ''value'') option)))
        \<and> opt_key r
          = (if truthy (get_property option ''key'') then get_property option ''key''
             else opt_label r))"
proof -
  have falsy: "\<not> truthy option \<longrightarrow>
      normalizeOption h option
        = Some \<lparr>opt_key = JString ''option-null'', opt_label = JString ''Unknown option'',
                 opt_value = None\<rparr>"
    by (simp add: normalizeOption_def)
  have str: "s \<noteq> [] \<longrightarrow>
      normalizeOption h (JString s)
        = Some \<lparr>opt_key = JString s, opt_label = JString s, opt_value = Some (JString s)\<rparr>"
    by (simp add: normalizeOption_def)
  have throws: "(normalizeOption h option = None) =
       (truthy option \<and> (\<forall>t. option \<noteq> JString t)
        \<and> \<not> truthy (get_property option ''label'') \<and> \<not> truthy (get_property option ''text'')
        \<and> \<not> truthy (get_property option ''command'')
        \<and> to_string h (nullish (get_property option ''value'') option) = None)"
  proof (cases "truthy option \<and> (\<forall>t. option \<noteq> JString t)")
    case True
    then show ?thesis
      by (auto simp: normalizeOption_other label_of_def split: option.splits)
  next
    case False
    then show ?thesis
      by (auto simp: normalizeOption_def)
  qed
  have other: "Some (opt_label r)
          = (if truthy (get_property option ''label'') then Some (get_property option ''label'')
             else if truthy (get_property option ''text'') then Some (get_property option ''text'')
             else if truthy (get_property option ''command'')
             then Some (get_property option ''command'')
             else map_option JString (to_string h (nullish (get_property option ''value'') option)))
        \<and> opt_key r
          = (if truthy (get_property option ''key'') then get_property option ''key''
             else opt_label r)"
    if asm: "truthy option \<and> (\<forall>t. option \<noteq> JString t) \<and> normalizeOption h option = Some r" for r
  proof -
    obtain l where l: "label_of h option = Some l" and "opt_label r = l"
      and "opt_key r = (if truthy (get_property option ''key'') then get_property option ''key''
                          else l)"
      using asm by (auto simp: normalizeOption_other split: option.splits)
    then show ?thesis
      by (simp add: label_of_def [symmetric])
  qed
  show ?thesis
    using falsy str throws other normalizeOption_defined [of h option] by blast
qed

theorem C9_normalizeOption_shapes_witness:
  "normalizeOption host0 JNull
     = Some \<lparr>opt_key = JString ''option-null'', opt_label = JString ''Unknown option'',
             opt_value = None\<rparr>
   \<and> normalizeOption host0 (JString ''Add 500 to food'')
     = Some \<lparr>opt_key = JString ''Add 500 to food'', opt_label = JString ''Add 500 to food'',
             opt_value = Some (JString ''Add 500 to food'')\<rparr>
   \<and> (\<exists>r. normalizeOption host0 (JObject [(''text'', JString ''Food'')]) = Some r
         \<and> opt_label r = JString ''Food'' \<and> opt_key r = JString ''Food'')
   \<and> (\<exists>r. normalizeOption host0 (JObject []) = Some r
         \<and> opt_label r = JString ''[object Object]'')
   \<and> normalizeOption host0 (JObject [(''value'', JArray [JObject [(''toString'', JBool True)]])])
       = None"
proof -
  have a: "\<not> truthy JNull" and b: "''Add 500 to food'' \<noteq> []"
    and c: "truthy (JObject [(''text'', JString ''Food'')])
          \<and> (\<forall>t. JObject [(''text'', JString ''Food'')] \<noteq> JString t)"
    and d: "truthy (JObject []) \<and> (\<forall>t. JObject [] \<noteq> JString t)"
    by simp_all
  note t = C9_normalizeOption_shapes [of JNull host0 "''Add 500 to food''"]
  note u = C9_normalizeOption_shapes [of "JObject [(''text'', JString ''Food'')]" host0 "''x''"]
  note v = C9_normalizeOption_shapes [of "JObject []" host0 "''x''"]
  note w = C9_normalizeOption_shapes
    [of "JObject [(''value'', JArray [JObject [(''toString'', JBool True)]])]" host0 "''x''"]
  have 1: "normalizeOption host0 JNull
     = Some \<lparr>opt_key = JString ''option-null'', opt_label = JString ''Unknown option'',
             opt_value = None\<rparr>"
    using t a by blast
  have 2: "normalizeOption host0 (JString ''Add 500 to food'')
     = Some \<lparr>opt_key = JString ''Add 500 to food'', opt_label = JString ''Add 500 to food'',
             opt_value = Some (JString ''Add 500 to food'')\<rparr>"
    using t b by blast
  have "normalizeOption host0 (JObject [(''text'', JString ''Food'')]) \<noteq> None"
    using u by simp
  then obtain r where r: "normalizeOption host0 (JObject [(''text'', JString ''Food'')]) = Some r"
    by blast
  then have "Some (opt_label r)
          = (if truthy (get_property (JObject [(''text'', JString ''Food'')]) ''label'')
             then Some (get_property (JObject [(''text'', JString ''Food'')]) ''label'')
             else if truthy (get_property (JObject [(''text'', JString ''Food'')]) ''text'')
             then Some (get_property (JObject [(''text'', JString ''Food'')]) ''text'')
             else if truthy (get_property (JObject [(''text'', JString ''Food'')]) ''command'')
             then Some (get_property (JObject [(''text'', JString ''Food'')]) ''command'')
             else map_option JString (to_string host0
                    (nullish (get_property (JObject [(''text'', JString ''Food'')]) ''value'')
                       (JObject [(''text'', JString ''Food'')]))))
        \<and> opt_key r
          = (if truthy (get_property (JObject [(''text'', JString ''Food'')]) ''key'')
             then get_property (JObject [(''text'', JString ''Food'')]) ''key''
             else opt_label r)"
    using u c by blast
  then have 3: "\<exists>r. normalizeOption host0 (JObject [(''text'', JString ''Food'')]) = Some r
         \<and> opt_label r = JString ''Food'' \<and> opt_key r = JString ''Food''"
    using r by simp
  have "normalizeOption host0 (JObject []) \<noteq> None"
    using v by (simp add: nullish_def own_toString_def)
  then obtain q where q: "normalizeOption host0 (JObject []) = Some q"
    by blast
  then have "Some (opt_label q)
          = (if truthy (get_property (JObject []) ''label'')
             then Some (get_property (JObject []) ''label'')
             else if truthy (get_property (JObject []) ''text'')
             then Some (get_property (JObject []) ''text'')
             else if truthy (get_property (JObject []) ''command'')
             then Some (get_property (JObject []) ''command'')
             else map_option JString (to_string host0
                    (nullish (get_property (JObject []) ''value'') (JObject []))))
        \<and> opt_key q
          = (if truthy (get_property (JObject []) ''key'')
             then get_property (JObject []) ''key''
             else opt_label q)"
    using v d by blast
  then have 4: "\<exists>r. normalizeOption host0 (JObject []) = Some r
         \<and> opt_label r = JString ''[object Object]''"
    using q by (simp add: nullish_def own_toString_def)
  have 5: "normalizeOption host0 (JObject [(''value'', JArray [JObject [(''toString'', JBool True)]])])
       = None"
    using w by (simp add: nullish_def own_toString_def)
  show ?thesis
    using 1 2 3 4 5 by blast
qed

section \<open>The API client (frontend/src/api.js)\<close>

text \<open>
  What \<open>fetch\<close> settles to: a rejection (network failure, or the abort of the timeout),
  or a response with its status and the outcome of \<open>response.json()\<close> (\<open>None\<close> when the
  body is not valid JSON).
\<close>

record response =
  resp_status :: nat
  resp_json :: "jsval option"

datatype fetch_outcome = Rejected string | Responded response

text \<open>
  What \<open>apiFetch\<close> throws: the error it builds for a response that is not ok, with its
  message, \<open>status\<close> and \<open>body\<close>; the rejection of \<open>fetch\<close> itself; or the TypeError that
  \<open>new Error\<close> throws when its argument has no string, which carries neither the status
  nor the body.
\<close>

datatype api_error = HttpError string nat jsval | FetchError string | ConversionError

text \<open>\<open>response.ok\<close>: the status is in the range 200 to 299.\<close>

definition resp_ok :: "response \<Rightarrow> bool" where
  "resp_ok r = (200 \<le> resp_status r \<and> resp_status r \<le> 299)"

definition apiFetch :: "host \<Rightarrow> fetch_outcome \<Rightarrow> api_error + jsval" where
  "apiFetch h outcome =
    (case outcome of
       Rejected reason \<Rightarrow> Inl (FetchError reason)
     | Responded r \<Rightarrow>
        (let data = (case resp_json r of Some d \<Rightarrow> d | None \<Rightarrow> JNull) in
         if \<not> resp_ok r
         then (case to_string h
                 (js_or (js_and data (js_or (get_property data ''error'') (get_property data ''message'')))
                    (JString (''Request failed: '' @ show_nat (resp_status r)))) of
             None \<Rightarrow> Inl ConversionError
           | Some message \<Rightarrow> Inl (HttpError message (resp_status r) data))
         else Inr data))"

subsection \<open>Properties of \<open>apiFetch\<close>\<close>

text \<open>
  Claim C10, as stated: for every status that is not ok \<open>apiFetch\<close> throws an Error
  that carries the status and the parsed body. When the field that gives the message has
  no string (the body \<open>{"error": {"toString": null}}\<close>), \<open>new Error\<close> throws a TypeError
  before the status and the body are attached.
\<close>

theorem C10_conversion_counterexample:
  "\<not> resp_ok \<lparr>resp_status = 400,
        resp_json = Some (JObject [(''error'', JObject [(''toString'', JNull)])])\<rparr>
   \<and> apiFetch host0 (Responded \<lparr>resp_status = 400,
        resp_json = Some (JObject [(''error'', JObject [(''toString'', JNull)])])\<rparr>)
       = Inl ConversionError
   \<and> (\<forall>m s b. apiFetch host0 (Responded \<lparr>resp_status = 400,
        resp_json = Some (JObject [(''error'', JObject [(''toString'', JNull)])])\<rparr>)
       \<noteq> Inl (HttpError m s b))"
  by (simp add: apiFetch_def resp_ok_def js_or_def js_and_def own_toString_def)

text \<open>
  Claim C10, amended: for a response with an ok status \<open>apiFetch\<close> returns the parsed
  JSON body, and null when the body is not valid JSON. For every other status it throws.
  The message is taken from the body's \<open>error\<close> field when that is truthy, else from its
  \<open>message\<close> field when that is truthy, else it is \<open>Request failed:\<close> followed by the
  status. When that value has a string (a string is left as it is), the error thrown
  has this string as its message and carries the status and the parsed body; when it has
  none (an object with an own property \<open>toString\<close>, or an array that holds one), what is
  thrown is a TypeError that carries neither.
\<close>

theorem C10_apiFetch_result:
  "(resp_ok r \<longrightarrow>
      apiFetch h (Responded r) = Inr (case resp_json r of Some d \<Rightarrow> d | None \<Rightarrow> JNull))
   \<and> (\<not> resp_ok r \<longrightarrow>
      (let data = (case resp_json r of Some d \<Rightarrow> d | None \<Rightarrow> JNull);
           e = get_property data ''error'';
           m = get_property data ''message'';
           message = (if truthy data \<and> truthy e then to_string h e
                      else if truthy data \<and> truthy m then to_string h m
                      else Some (''Request failed: '' @ show_nat (resp_status r)))
       in apiFetch h (Responded r)
          = (case message of
               Some msg \<Rightarrow> Inl (HttpError msg (resp_status r) data)
             | None \<Rightarrow> Inl ConversionError)))"
  by (simp add: apiFetch_def Let_def js_or_def js_and_def)

theorem C10_apiFetch_result_witness:
  "apiFetch host0 (Responded \<lparr>resp_status = 200, resp_json = Some (JObject [(''message'', JString ''ok'')])\<rparr>)
     = Inr (JObject [(''message'', JString ''ok'')])
   \<and> apiFetch host0 (Responded \<lparr>resp_status = 200, resp_json = None\<rparr>) = Inr JNull
   \<and> apiFetch host0 (Responded \<lparr>resp_status = 400,
        resp_json = Some (JObject [(''error'', JString ''Invalid amount''), (''message'', JString ''m'')])\<rparr>)
     = Inl (HttpError ''Invalid amount'' 400
         (JObject [(''error'', JString ''Invalid amount''), (''message'', JString ''m'')]))
   \<and> apiFetch host0 (Responded \<lparr>resp_status = 422, resp_json = Some (JObject [(''message'', JString ''m'')])\<rparr>)
     = Inl (HttpError ''m'' 422 (JObject [(''message'', JString ''m'')]))
   \<and> apiFetch host0 (Responded \<lparr>resp_status = 503, resp_json = None\<rparr>)
     = Inl (HttpError ''Request failed: 503'' 503 JNull)
   \<and> apiFetch host0 (Responded \<lparr>resp_status = 500,
        resp_json = Some (JObject [(''message'', JArray [JObject [(''toString'', JNull)]])])\<rparr>)
     = Inl ConversionError"
proof -
  have ok: "resp_ok \<lparr>resp_status = 200, resp_json = j\<rparr>" for j
    by (simp add: resp_ok_def)
  have bad: "\<not> resp_ok \<lparr>resp_status = 400, resp_json = j\<rparr>"
    "\<not> resp_ok \<lparr>resp_status = 422, resp_json = j\<rparr>"
    "\<not> resp_ok \<lparr>resp_status = 503, resp_json = j\<rparr>"
    "\<not> resp_ok \<lparr>resp_status = 500, resp_json = j\<rparr>" for j
    by (simp_all add: resp_ok_def)
  show ?thesis
    using C10_apiFetch_result [of "\<lparr>resp_status = 200, resp_json = Some (JObject [(''message'', JString ''ok'')])\<rparr>" host0]
      C10_apiFetch_result [of "\<lparr>resp_status = 200, resp_json = None\<rparr>" host0]
      C10_apiFetch_result [of "\<lparr>resp_status = 400,
        resp_json = Some (JObject [(''error'', JString ''Invalid amount''), (''message'', JString ''m'')])\<rparr>" host0]
      C10_apiFetch_result [of "\<lparr>resp_status = 422, resp_json = Some (JObject [(''message'', JString ''m'')])\<rparr>" host0]
      C10_apiFetch_result [of "\<lparr>resp_status = 503, resp_json = None\<rparr>" host0]
      C10_apiFetch_result [of "\<lparr>resp_status = 500,
        resp_json = Some (JObject [(''message'', JArray [JObject [(''toString'', JNull)]])])\<rparr>" host0]
      ok bad
    by (simp add: show_nat.simps digit_char_def Let_def own_toString_def)
qed

section \<open>Daily chart series (frontend/src/App.js)\<close>

text \<open>
  The host clock. An instant is its number of milliseconds since the epoch, in UTC; the
  time zone is a fixed offset from UTC in minutes (a change of offset within the week is
  outside the model). \<open>getDate\<close> and \<open>setDate\<close> read and move the date in local time,
  \<open>toISOString\<close> prints it in UTC, \<open>toLocaleDateString\<close> names the weekday in local time.
\<close>

definition ms_per_day :: int where
  "ms_per_day = 86400000"

definition local_time :: "int \<Rightarrow> int \<Rightarrow> int" where
  "local_time zone t = t + zone * 60000"

definition utc_time :: "int \<Rightarrow> int \<Rightarrow> int" where
  "utc_time zone l = l - zone * 60000"

text \<open>
  \<open>date = new Date(today); date.setDate(today.getDate() - offset)\<close>: the local calendar
  day moves back by \<open>offset\<close> days and the local time of day stays.
\<close>

definition setDate_back :: "int \<Rightarrow> int \<Rightarrow> nat \<Rightarrow> int" where
  "setDate_back zone today offset = utc_time zone (local_time zone today - int offset * ms_per_day)"

text \<open>
  \<open>date.toISOString().slice(0, 10)\<close>: the calendar day in UTC. A date text
  \<open>YYYY-MM-DD\<close> is represented by the number of its day, counted from 1970-01-01.
\<close>

definition iso_day :: "int \<Rightarrow> int" where
  "iso_day t = t div ms_per_day"

text \<open>\<open>date.toLocaleDateString('en-IN', {weekday: 'short'})\<close>; day 0 was a Thursday.\<close>

definition weekday_names :: "string list" where
  "weekday_names = [''Thu'', ''Fri'', ''Sat'', ''Sun'', ''Mon'', ''Tue'', ''Wed'']"

definition weekday_short :: "int \<Rightarrow> int \<Rightarrow> string" where
  "weekday_short zone t = weekday_names ! nat ((local_time zone t div ms_per_day) mod 7)"

text \<open>
  An expense as \<open>computeDailySpending\<close> reads it: its \<open>date\<close> (\<open>None\<close> for a text that
  is no date, which matches no bucket) and its \<open>amount\<close>.
\<close>

record expense =
  exp_date :: "int option"
  exp_amount :: jsnum

text \<open>\<open>Number(expense.amount) || 0\<close>: NaN and the two zeros give the positive zero.\<close>

definition num_or_zero :: "jsnum \<Rightarrow> jsnum" where
  "num_or_zero n = (if is_zero n \<or> n = NaN then Num 0 else n)"

record bucket =
  bucket_key :: int
  bucket_day :: string
  bucket_amount :: jsnum

record chart_point =
  point_day :: string
  point_amount :: jsnum

text \<open>The loop \<open>for (let offset = 6; offset >= 0; offset -= 1)\<close> that pushes the buckets.\<close>

definition initial_buckets :: "int \<Rightarrow> int \<Rightarrow> bucket list" where
  "initial_buckets zone today =
    map (\<lambda>offset. let date = setDate_back zone today offset
                   in \<lparr>bucket_key = iso_day date, bucket_day = weekday_short zone date,
                       bucket_amount = Num 0\<rparr>)
      [6, 5, 4, 3, 2, 1, 0]"

text \<open>
  \<open>Object.fromEntries(buckets.map((bucket) => [bucket.key, bucket]))\<close>: from a key to
  the bucket object, here its position in \<open>buckets\<close>; a later entry replaces an earlier one
  of the same key.
\<close>

definition indexByKey :: "bucket list \<Rightarrow> int \<Rightarrow> nat option" where
  "indexByKey buckets = map_of (rev (zip (map bucket_key buckets) [0..<length buckets]))"

text \<open>
  The body of \<open>expenses.forEach\<close>: it mutates the bucket the index refers to, adding
  to its amount as the doubles add.
\<close>

definition add_expense :: "(int \<Rightarrow> nat option) \<Rightarrow> bucket list \<Rightarrow> expense \<Rightarrow> bucket list" where
  "add_expense index buckets e =
    (case exp_date e of
       None \<Rightarrow> buckets
     | Some d \<Rightarrow>
        (case index d of
           None \<Rightarrow> buckets
         | Some i \<Rightarrow>
            buckets[i := (buckets ! i)\<lparr>bucket_amount :=
                            fadd (bucket_amount (buckets ! i)) (num_or_zero (exp_amount e))\<rparr>]))"

text \<open>The buckets when the loop over the expenses has ended.\<close>

definition dailyBuckets :: "int \<Rightarrow> int \<Rightarrow> expense list \<Rightarrow> bucket list" where
  "dailyBuckets zone today expenses =
    (let buckets = initial_buckets zone today
     in foldl (add_expense (indexByKey buckets)) buckets expenses)"

definition computeDailySpending :: "int \<Rightarrow> int \<Rightarrow> expense list \<Rightarrow> chart_point list" where
  "computeDailySpending zone today expenses =
    map (\<lambda>b. \<lparr>point_day = bucket_day b, point_amount = bucket_amount b\<rparr>)
      (dailyBuckets zone today expenses)"

text \<open>
  The series as the specification words it, for comparison: one entry for each of the
  seven calendar days that end with today (the day the client's clock shows), oldest
  first, labelled with its weekday, holding the sum of the expenses dated that day (added
  up from zero in the order of the list, as the doubles add).
\<close>

definition local_day :: "int \<Rightarrow> int \<Rightarrow> int" where
  "local_day zone t = local_time zone t div ms_per_day"

definition amount_dated :: "int \<Rightarrow> expense list \<Rightarrow> jsnum" where
  "amount_dated d expenses =
    foldl fadd (Num 0)
      (map (\<lambda>e. num_or_zero (exp_amount e)) (filter (\<lambda>e. exp_date e = Some d) expenses))"

definition daily_series_spec :: "int \<Rightarrow> int \<Rightarrow> expense list \<Rightarrow> chart_point list" where
  "daily_series_spec zone today expenses =
    map (\<lambda>i. let d = local_day zone today - 6 + int i
             in \<lparr>point_day = weekday_names ! nat (d mod 7), point_amount = amount_dated d expenses\<rparr>)
      [0..<7]"

subsection \<open>Properties of \<open>computeDailySpending\<close>\<close>

lemma upt_7: "[0..<7] = [0, 1, 2, 3, 4, 5, 6::nat]"
  by (simp add: upt_rec)

lemma iso_day_setDate_back: "iso_day (setDate_back zone today k) = iso_day today - int k"
proof -
  have "(today + (- int k) * ms_per_day) div ms_per_day = - int k + today div ms_per_day"
    by (rule div_mult_self1) (simp add: ms_per_day_def)
  then show ?thesis
    by (simp add: iso_day_def setDate_back_def utc_time_def local_time_def)
qed

lemma weekday_short_setDate_back:
  "weekday_short zone (setDate_back zone today k)
     = weekday_names ! nat ((local_day zone today - int k) mod 7)"
proof -
  have a: "local_time zone (setDate_back zone today k)
          = local_time zone today + (- int k) * ms_per_day"
    by (simp add: setDate_back_def utc_time_def local_time_def)
  have b: "(local_time zone today + (- int k) * ms_per_day) div ms_per_day
          = - int k + local_time zone today div ms_per_day"
    by (rule div_mult_self1) (simp add: ms_per_day_def)
  show ?thesis
    unfolding weekday_short_def a b local_day_def by (simp add: algebra_simps)
qed

lemma initial_buckets_eq:
  "initial_buckets zone today =
     map (\<lambda>i. \<lparr>bucket_key = iso_day today - 6 + int i,
                bucket_day = weekday_names ! nat ((local_day zone today - 6 + int i) mod 7),
                bucket_amount = Num 0\<rparr>) [0..<7]"
  by (simp add: initial_buckets_def iso_day_setDate_back weekday_short_setDate_back upt_7)

lemma indexByKey_initial:
  "indexByKey (initial_buckets zone today) d =
     (if iso_day today - 6 \<le> d \<and> d \<le> iso_day today
      then Some (nat (d - (iso_day today - 6))) else None)"
  unfolding indexByKey_def initial_buckets_eq upt_7
  by (simp; linarith?)

definition hits :: "(int \<Rightarrow> nat option) \<Rightarrow> nat \<Rightarrow> expense \<Rightarrow> bool" where
  "hits index i e = (case exp_date e of None \<Rightarrow> False | Some d \<Rightarrow> index d = Some i)"

lemma add_expense_length: "length (add_expense index bs e) = length bs"
  by (simp add: add_expense_def split: option.splits)

lemma add_expense_nth:
  "i < length bs \<Longrightarrow>
   add_expense index bs e ! i =
     (if hits index i e
      then (bs ! i)\<lparr>bucket_amount := fadd (bucket_amount (bs ! i)) (num_or_zero (exp_amount e))\<rparr>
      else bs ! i)"
  by (auto simp: add_expense_def hits_def nth_list_update split: option.splits)

lemma foldl_add_expense_length: "length (foldl (add_expense index) bs es) = length bs"
  by (induction es arbitrary: bs) (simp_all add: add_expense_length)

lemma foldl_add_expense_nth:
  "i < length bs \<Longrightarrow>
   foldl (add_expense index) bs es ! i =
     (bs ! i)\<lparr>bucket_amount :=
        foldl fadd (bucket_amount (bs ! i))
          (map (\<lambda>e. num_or_zero (exp_amount e)) (filter (hits index i) es))\<rparr>"
proof (induction es arbitrary: bs)
  case Nil
  then show ?case by simp
next
  case (Cons e es)
  have "i < length (add_expense index bs e)"
    using Cons.prems by (simp add: add_expense_length)
  then show ?case
    using Cons.IH [of "add_expense index bs e"] Cons.prems
    by (simp add: add_expense_nth)
qed

lemma hits_initial:
  "i < 7 \<Longrightarrow>
   hits (indexByKey (initial_buckets zone today)) i e = (exp_date e = Some (iso_day today - 6 + int i))"
  by (cases "exp_date e") (auto simp: hits_def indexByKey_initial)

lemma dailyBuckets_nth:
  assumes "i < 7"
  shows "dailyBuckets zone today expenses ! i =
     \<lparr>bucket_key = iso_day today - 6 + int i,
      bucket_day = weekday_names ! nat ((local_day zone today - 6 + int i) mod 7),
      bucket_amount = amount_dated (iso_day today - 6 + int i) expenses\<rparr>"
proof -
  have l: "i < length (initial_buckets zone today)"
    using assms by (simp add: initial_buckets_eq)
  have n: "initial_buckets zone today ! i =
     \<lparr>bucket_key = iso_day today - 6 + int i,
      bucket_day = weekday_names ! nat ((local_day zone today - 6 + int i) mod 7),
      bucket_amount = Num 0\<rparr>"
    using assms unfolding initial_buckets_eq by (simp del: upt_Suc)
  have h: "hits (indexByKey (initial_buckets zone today)) i = (\<lambda>e. exp_date e = Some (iso_day today - 6 + int i))"
    using hits_initial [OF assms] by blast
  show ?thesis
    unfolding dailyBuckets_def Let_def foldl_add_expense_nth [OF l] n h
    by (simp add: amount_dated_def)
qed

lemma dailyBuckets_length: "length (dailyBuckets zone today expenses) = 7"
  by (simp add: dailyBuckets_def Let_def foldl_add_expense_length initial_buckets_eq)

text \<open>
  What the function computes: seven entries, oldest first. Entry \<open>i\<close> holds the sum of
  the expenses dated day \<open>i\<close> of the seven calendar days in UTC that end with the UTC day
  of the clock, and is labelled with the weekday of day \<open>i\<close> of the seven local calendar
  days that end with the local day of the clock.
\<close>

lemma computeDailySpending_eq:
  "computeDailySpending zone today expenses =
     map (\<lambda>i. \<lparr>point_day = weekday_names ! nat ((local_day zone today - 6 + int i) mod 7),
                point_amount = amount_dated (iso_day today - 6 + int i) expenses\<rparr>) [0..<7]"
proof (rule nth_equalityI)
  show "length (computeDailySpending zone today expenses) =
    length (map (\<lambda>i. \<lparr>point_day = weekday_names ! nat ((local_day zone today - 6 + int i) mod 7),
                point_amount = amount_dated (iso_day today - 6 + int i) expenses\<rparr>) [0..<7])"
    by (simp add: computeDailySpending_def dailyBuckets_length)
next
  fix i
  assume "i < length (computeDailySpending zone today expenses)"
  then have i: "i < 7"
    by (simp add: computeDailySpending_def dailyBuckets_length)
  then show "computeDailySpending zone today expenses ! i =
    map (\<lambda>i. \<lparr>point_day = weekday_names ! nat ((local_day zone today - 6 + int i) mod 7),
                point_amount = amount_dated (iso_day today - 6 + int i) expenses\<rparr>) [0..<7] ! i"
    by (simp add: computeDailySpending_def dailyBuckets_length dailyBuckets_nth del: upt_Suc)
qed

text \<open>
  While the local calendar day of the clock is its UTC day, the function computes the
  series of the specification.
\<close>

lemma computeDailySpending_meets_spec:
  "local_day zone today = iso_day today \<Longrightarrow>
   computeDailySpending zone today expenses = daily_series_spec zone today expenses"
  by (simp add: computeDailySpending_eq daily_series_spec_def Let_def)

text \<open>
  Claim C7 at 01:00 on Tuesday 2025-11-04 in India (UTC+05:30), which is 19:30 on Monday
  2025-11-03 in UTC (day 20395), with one expense of 100 dated 2025-11-03 and one of 7
  dated 2025-11-04. The claim asks for 7 in the last entry, today's: the function labels
  its last entry Tuesday and fills it with Monday's 100, and shows today's expense
  nowhere.
\<close>

theorem C7_local_day_divergence:
  "local_day 330 1762198200000 = 20396
   \<and> iso_day 1762198200000 = 20395
   \<and> last (daily_series_spec 330 1762198200000
        [\<lparr>exp_date = Some 20395, exp_amount = Num 100\<rparr>, \<lparr>exp_date = Some 20396, exp_amount = Num 7\<rparr>])
      = \<lparr>point_day = ''Tue'', point_amount = Num 7\<rparr>
   \<and> last (computeDailySpending 330 1762198200000
        [\<lparr>exp_date = Some 20395, exp_amount = Num 100\<rparr>, \<lparr>exp_date = Some 20396, exp_amount = Num 7\<rparr>])
      = \<lparr>point_day = ''Tue'', point_amount = Num 100\<rparr>
   \<and> map point_amount (computeDailySpending 330 1762198200000
        [\<lparr>exp_date = Some 20395, exp_amount = Num 100\<rparr>, \<lparr>exp_date = Some 20396, exp_amount = Num 7\<rparr>])
      = [Num 0, Num 0, Num 0, Num 0, Num 0, Num 0, Num 100]"
proof -
  have l: "local_day 330 1762198200000 = 20396" and u: "iso_day 1762198200000 = 20395"
    by (simp_all add: local_day_def local_time_def iso_day_def ms_per_day_def)
  have a: "fadd (Num 0) (Num 100) = Num 100"
    by (simp add: fadd_Num round_double_eq [where e = 6 and m = 7036874417766400])
  have b: "fadd (Num 0) (Num 7) = Num 7"
    by (simp add: fadd_Num round_double_eq [where e = 2 and m = 7881299347898368])
  show ?thesis
    unfolding computeDailySpending_eq daily_series_spec_def Let_def l u upt_7
    by (simp add: amount_dated_def weekday_names_def num_or_zero_def is_zero_def a b)
qed

section \<open>The command engine behind the client\<close>

text \<open>
  The client talks to a backend (app.py, budget_module.py, database.py,
  summary_module.py, visual_module.py) that is not among the sources. This section
  models the part of it the specification calls the engine, from the specification alone.
  What the specification leaves to collaborators or does not word (the grammar of the
  parser, the synonym lookup, calendar periods, the texts of replies) is a parameter.
\<close>

text \<open>
  Modelled from the spec: the Category Catalog of the backend, a mapping from the canonical
  key to the accepted synonyms and an optional budget limit, in declaration order.
\<close>

record catalog_entry =
  cat_key :: string
  cat_synonyms :: "string list"
  cat_limit :: "rat option"

type_synonym catalog = "catalog_entry list"

text \<open>Modelled from the spec: an Expense of the backend's store.\<close>

record ledger_entry =
  entry_id :: nat
  entry_amount :: rat
  entry_category :: string
  entry_date :: int
  entry_time :: nat
  entry_description :: "string option"

type_synonym ledger = "ledger_entry list"

text \<open>Modelled from the spec: the period slot of a query to the backend.\<close>

datatype period = Today | Week | Month

text \<open>
  Modelled from the spec: the Intent the backend's parser produces, each kind with its
  slots; an Add carries the extracted amount and the category fragment, either of which
  may be missing.
\<close>

datatype intent =
    Add "rat option" "string option"
  | DeleteLast
  | Query period
  | ShowRecent
  | WeeklySummary
  | MonthlySummary
  | Unknown string

text \<open>Modelled from the spec: the two severities of an alert of the backend.\<close>

datatype severity = Warning | OverBudget

text \<open>Modelled from the spec: an alert of the backend's Budget Evaluator.\<close>

record alert =
  alert_category :: string
  alert_percentage :: rat
  alert_severity :: severity

text \<open>
  Modelled from the spec: what a request to the backend came to, for the wording of the
  reply.
\<close>

datatype outcome =
    Added ledger_entry
  | Deleted ledger_entry
  | NothingToDelete
  | Answered period rat
  | Listed
  | Summarised period
  | Rephrase string
  | InvalidAmount
  | NeedCategory

text \<open>
  Modelled from the spec: the stages and collaborators of the backend that the
  specification names without fixing: the Lexical Normalizer and Command Parser
  (\<open>st_parse\<close>), the synonym resolution of a category fragment to canonical keys
  (\<open>st_candidates\<close>), the calendar (\<open>st_in_period p today d\<close>: day \<open>d\<close> lies in period
  \<open>p\<close> of \<open>today\<close>), the summary and chart collaborators, the bound of the recent list, and the
  texts: the literal phrase of an option, the prompt over several candidates, the reply,
  the error and the alert.
\<close>

record stages =
  st_parse :: "string \<Rightarrow> intent"
  st_candidates :: "catalog \<Rightarrow> string \<Rightarrow> string list"
  st_in_period :: "period \<Rightarrow> int \<Rightarrow> int \<Rightarrow> bool"
  st_summary :: "period \<Rightarrow> ledger \<Rightarrow> string"
  st_chart_series :: "int \<Rightarrow> ledger \<Rightarrow> (string \<times> rat) list list"
  st_recent_count :: nat
  st_phrase :: "rat \<Rightarrow> string \<Rightarrow> string"
  st_choose_prompt :: string
  st_reply :: "outcome \<Rightarrow> string"
  st_error :: "outcome \<Rightarrow> string"
  st_alert_text :: "alert \<Rightarrow> string"

subsection \<open>Ledger Service\<close>

text \<open>
  Modelled from the spec: the next identifier of the backend's Ledger Service, for
  \<open>append\<close>: the entry goes to the end of the sequence, with the next identifier and
  the current date and time.
\<close>

definition next_id :: "ledger \<Rightarrow> nat" where
  "next_id l = Suc (foldr max (map entry_id l) 0)"

text \<open>Modelled from the spec: \<open>append\<close> of the backend's Ledger Service itself.\<close>

definition ledger_append :: "int \<Rightarrow> nat \<Rightarrow> rat \<Rightarrow> string \<Rightarrow> ledger \<Rightarrow> ledger" where
  "ledger_append today time amount category l =
    l @ [\<lparr>entry_id = next_id l, entry_amount = amount, entry_category = category,
          entry_date = today, entry_time = time, entry_description = None\<rparr>]"

text \<open>
  Modelled from the spec: \<open>deleteLast\<close> of the backend's Ledger Service: it removes the
  entry at the latest insertion position; \<open>None\<close> is the failure EmptyLedger.
\<close>

definition deleteLast :: "ledger \<Rightarrow> (ledger_entry \<times> ledger) option" where
  "deleteLast l = (if l = [] then None else Some (last l, butlast l))"

text \<open>
  Modelled from the spec: the read projections of the backend's Ledger Service; first
  the total spent within a period.
\<close>

definition period_total :: "(int \<Rightarrow> bool) \<Rightarrow> ledger \<Rightarrow> rat" where
  "period_total inside l = sum_list (map entry_amount (filter (\<lambda>e. inside (entry_date e)) l))"

text \<open>Modelled from the spec: the total the backend's ledger holds for one category.\<close>

definition category_total :: "(int \<Rightarrow> bool) \<Rightarrow> ledger \<Rightarrow> string \<Rightarrow> rat" where
  "category_total inside l c =
    sum_list (map entry_amount (filter (\<lambda>e. inside (entry_date e) \<and> entry_category e = c) l))"

text \<open>
  Modelled from the spec: \<open>categoryTotals(period)\<close> of the backend's Ledger Service, an
  entry for each category that has an expense within the period.
\<close>

definition categoryTotals :: "(int \<Rightarrow> bool) \<Rightarrow> ledger \<Rightarrow> (string \<times> rat) list" where
  "categoryTotals inside l =
    map (\<lambda>c. (c, category_total inside l c))
      (remdups (map entry_category (filter (\<lambda>e. inside (entry_date e)) l)))"

text \<open>
  Modelled from the spec: \<open>recent(n)\<close> of the backend's Ledger Service, the most recent
  entry first.
\<close>

definition recent :: "nat \<Rightarrow> ledger \<Rightarrow> ledger" where
  "recent n l = take n (rev l)"

subsection \<open>Budget Evaluator\<close>

text \<open>
  Modelled from the spec: the backend's Budget Evaluator on one catalog entry: for a
  category that is present in the totals and has a configured limit,
  \<open>percentage = total / limit * 100\<close>, an alert when \<open>percentage > 80\<close>, "Over Budget" when
  \<open>percentage > 100\<close>. The specification is silent on a limit of zero; the model raises no
  alert for it.
\<close>

definition alert_for :: "(string \<times> rat) list \<Rightarrow> catalog_entry \<Rightarrow> alert option" where
  "alert_for totals c =
    (case map_of totals (cat_key c) of
       None \<Rightarrow> None
     | Some spent \<Rightarrow>
        (case cat_limit c of
           None \<Rightarrow> None
         | Some limit \<Rightarrow>
            (if limit = 0 then None
             else (let percentage = spent / limit * 100 in
                   if 80 < percentage
                   then Some \<lparr>alert_category = cat_key c, alert_percentage = percentage,
                              alert_severity = (if 100 < percentage then OverBudget else Warning)\<rparr>
                   else None))))"

text \<open>
  Modelled from the spec: the order of the backend's alert list, worst offender first, a
  tie broken by catalog declaration order. An alert is placed behind every alert of the
  same or a higher percentage.
\<close>

fun place_alert :: "alert \<Rightarrow> alert list \<Rightarrow> alert list" where
  "place_alert a [] = [a]"
| "place_alert a (b # bs) =
     (if alert_percentage b < alert_percentage a then a # b # bs else b # place_alert a bs)"

text \<open>
  Modelled from the spec: the ordering of the backend's alert list as a whole, each alert
  placed in turn.
\<close>

definition order_alerts :: "alert list \<Rightarrow> alert list" where
  "order_alerts as = foldl (\<lambda>placed a. place_alert a placed) [] as"

text \<open>
  Modelled from the spec: the alerts the backend raises for the catalog entries, in
  declaration order, before they are ordered.
\<close>

definition raised_alerts :: "catalog \<Rightarrow> (string \<times> rat) list \<Rightarrow> alert list" where
  "raised_alerts cat totals = List.map_filter (alert_for totals) cat"

text \<open>Modelled from the spec: the backend's Budget Evaluator, raising and ordering.\<close>

definition evaluate_budgets :: "catalog \<Rightarrow> (string \<times> rat) list \<Rightarrow> alert list" where
  "evaluate_budgets cat totals = order_alerts (raised_alerts cat totals)"

subsection \<open>Dashboard Assembler\<close>

text \<open>Modelled from the spec: the Dashboard Snapshot the backend returns.\<close>

record snapshot =
  total_today :: rat
  weekly_summary_text :: string
  monthly_summary_text :: string
  category_totals :: "(string \<times> rat) list"
  budget_alerts :: "string list"
  recent_expenses :: "ledger_entry list"
  chart_series :: "(string \<times> rat) list list"

text \<open>
  Modelled from the spec: the alerts of the backend for the current month, the period the
  Budget Evaluator reads.
\<close>

definition month_alerts :: "stages \<Rightarrow> catalog \<Rightarrow> int \<Rightarrow> ledger \<Rightarrow> alert list" where
  "month_alerts st cat today l =
    evaluate_budgets cat (categoryTotals (st_in_period st Month today) l)"

text \<open>
  Modelled from the spec: the backend's Dashboard Assembler, which computes every field
  from the ledger.
\<close>

definition assemble :: "stages \<Rightarrow> catalog \<Rightarrow> int \<Rightarrow> ledger \<Rightarrow> snapshot" where
  "assemble st cat today l =
    \<lparr>total_today = period_total (st_in_period st Today today) l,
     weekly_summary_text = st_summary st Week l,
     monthly_summary_text = st_summary st Month l,
     category_totals = categoryTotals (st_in_period st Month today) l,
     budget_alerts = map (st_alert_text st) (month_alerts st cat today l),
     recent_expenses = recent (st_recent_count st) l,
     chart_series = st_chart_series st today l\<rparr>"

subsection \<open>Ambiguity Resolver\<close>

text \<open>Modelled from the spec: what the backend's Ambiguity Resolver returns.\<close>

datatype resolution =
    Resolved rat string
  | Confirmation string "(string \<times> string) list"
  | ValidationError
  | NoCategory

text \<open>
  Modelled from the spec: the candidate set of a category fragment in the backend's
  resolver: the canonical keys of the catalog that the synonym lookup returns.
\<close>

definition candidate_keys :: "stages \<Rightarrow> catalog \<Rightarrow> string \<Rightarrow> string list" where
  "candidate_keys st cat fragment =
    filter (\<lambda>k. k \<in> set (map cat_key cat)) (remdups (st_candidates st cat fragment))"

text \<open>
  Modelled from the spec: the options of a Confirmation Context of the backend, one for
  each category offered: its label, and as its value the literal phrase to resubmit.
\<close>

definition options_for :: "stages \<Rightarrow> rat \<Rightarrow> string list \<Rightarrow> (string \<times> string) list" where
  "options_for st amount keys = map (\<lambda>k. (k, st_phrase st amount k)) keys"

text \<open>
  Modelled from the spec: the backend's Ambiguity Resolver on an Add intent. A missing or
  non-positive amount fails at once with a validation error; no fragment is a parse
  failure; one candidate resolves; no candidate offers every catalog category under the
  prompt "Which category did you mean?"; several candidates are offered themselves.
\<close>

definition resolve_add :: "stages \<Rightarrow> catalog \<Rightarrow> rat option \<Rightarrow> string option \<Rightarrow> resolution" where
  "resolve_add st cat amount fragment =
    (case amount of
       None \<Rightarrow> ValidationError
     | Some a \<Rightarrow>
        if a \<le> 0 then ValidationError
        else (case fragment of
           None \<Rightarrow> NoCategory
         | Some f \<Rightarrow>
            (case candidate_keys st cat f of
               [] \<Rightarrow> Confirmation ''Which category did you mean?''
                       (options_for st a (map cat_key cat))
             | [k] \<Rightarrow> Resolved a k
             | k # k' # ks \<Rightarrow> Confirmation (st_choose_prompt st)
                       (options_for st a (k # k' # ks)))))"

subsection \<open>The voice command endpoint\<close>

text \<open>
  Modelled from the spec: the response of the backend to a voice or text command; a field
  that may be absent is an option, \<open>needs_confirmation\<close> is false when absent.
\<close>

record voice_response =
  reply :: string
  success :: bool
  error :: "string option"
  needs_confirmation :: bool
  confirmation_prompt :: "string option"
  options :: "(string \<times> string) list option"
  budget_alert :: "string option"
  dashboard :: "snapshot option"

text \<open>Modelled from the spec: the backend's response to a request that failed.\<close>

definition failure :: "stages \<Rightarrow> outcome \<Rightarrow> voice_response" where
  "failure st out =
    \<lparr>reply = st_reply st out, success = False, error = Some (st_error st out),
     needs_confirmation = False, confirmation_prompt = None, options = None,
     budget_alert = None, dashboard = None\<rparr>"

text \<open>
  Modelled from the spec: the backend's response to a request that asks for a
  confirmation: not an error, and no snapshot, since nothing was done.
\<close>

definition ask :: "stages \<Rightarrow> string \<Rightarrow> (string \<times> string) list \<Rightarrow> voice_response" where
  "ask st prompt opts =
    \<lparr>reply = st_reply st NeedCategory, success = True, error = None,
     needs_confirmation = True, confirmation_prompt = Some prompt, options = Some opts,
     budget_alert = None, dashboard = None\<rparr>"

text \<open>
  Modelled from the spec: the backend's response to a mutation or query that succeeded,
  with the snapshot computed afresh from the ledger and the single highest-severity alert.
\<close>

definition succeeded :: "stages \<Rightarrow> catalog \<Rightarrow> int \<Rightarrow> outcome \<Rightarrow> ledger \<Rightarrow> voice_response" where
  "succeeded st cat today out l =
    \<lparr>reply = st_reply st out, success = True, error = None,
     needs_confirmation = False, confirmation_prompt = None, options = None,
     budget_alert = (case month_alerts st cat today l of
                       [] \<Rightarrow> None
                     | a # as \<Rightarrow> Some (st_alert_text st a)),
     dashboard = Some (assemble st cat today l)\<rparr>"

text \<open>
  Modelled from the spec: the backend's handling of one command, from the transcript to
  the response and the ledger after it.
\<close>

definition handle_command ::
  "stages \<Rightarrow> catalog \<Rightarrow> int \<Rightarrow> nat \<Rightarrow> string \<Rightarrow> ledger \<Rightarrow> voice_response \<times> ledger" where
  "handle_command st cat today time transcript l =
    (case st_parse st transcript of
       Unknown reason \<Rightarrow> (failure st (Rephrase reason), l)
     | Add amount fragment \<Rightarrow>
        (case resolve_add st cat amount fragment of
           ValidationError \<Rightarrow> (failure st InvalidAmount, l)
         | NoCategory \<Rightarrow> (failure st (Rephrase []), l)
         | Confirmation prompt opts \<Rightarrow> (ask st prompt opts, l)
         | Resolved a k \<Rightarrow>
            (let l' = ledger_append today time a k l
             in (succeeded st cat today (Added (last l')) l', l')))
     | DeleteLast \<Rightarrow>
        (case deleteLast l of
           None \<Rightarrow> (failure st NothingToDelete, l)
         | Some (e, l') \<Rightarrow> (succeeded st cat today (Deleted e) l', l'))
     | Query p \<Rightarrow>
        (succeeded st cat today (Answered p (period_total (st_in_period st p today) l)) l, l)
     | ShowRecent \<Rightarrow> (succeeded st cat today Listed l, l)
     | WeeklySummary \<Rightarrow> (succeeded st cat today (Summarised Week) l, l)
     | MonthlySummary \<Rightarrow> (succeeded st cat today (Summarised Month) l, l))"

subsection \<open>The manual add endpoint\<close>

text \<open>
  Modelled from the spec: the backend's manual add (\<open>/api/add\<close>): a missing or
  non-positive amount and an unknown category are rejected before any mutation with
  \<open>{error}\<close> and a 4xx status (400 here); otherwise the expense is appended and the
  response is \<open>{message}\<close>. The specification does not say whether a synonym is accepted;
  the model accepts the canonical keys.
\<close>

definition manual_add ::
  "stages \<Rightarrow> catalog \<Rightarrow> int \<Rightarrow> nat \<Rightarrow> rat option \<Rightarrow> string \<Rightarrow> ledger \<Rightarrow> fetch_outcome \<times> ledger" where
  "manual_add st cat today time amount category l =
    (case amount of
       None \<Rightarrow>
        (Responded \<lparr>resp_status = 400,
           resp_json = Some (JObject [(''error'', JString (st_error st InvalidAmount))])\<rparr>, l)
     | Some a \<Rightarrow>
        if a \<le> 0
        then (Responded \<lparr>resp_status = 400,
                resp_json = Some (JObject [(''error'', JString (st_error st InvalidAmount))])\<rparr>, l)
        else if category \<notin> set (map cat_key cat)
        then (Responded \<lparr>resp_status = 400,
                resp_json = Some (JObject [(''error'', JString (st_error st NeedCategory))])\<rparr>, l)
        else (let l' = ledger_append today time a category l
              in (Responded \<lparr>resp_status = 200,
                    resp_json = Some (JObject [(''message'', JString (st_reply st (Added (last l'))))])\<rparr>,
                  l')))"

section \<open>The dashboard's handlers (frontend/src/App.js)\<close>

datatype toast_type = ToastError | ToastSuccess | ToastInfo

text \<open>A toast: its type and its message (any value: the handlers pass on what they read).\<close>

datatype toast = Toast toast_type jsval

text \<open>The state \<open>newExpense\<close> of the manual form; both fields are texts of the inputs.\<close>

record new_expense =
  ne_amount :: string
  ne_category :: string

text \<open>
  The message of the TypeError that reading \<open>payload.message\<close> of \<open>null\<close> throws (the
  wording of V8).
\<close>

definition null_read_message :: string where
  "null_read_message = ''Cannot read properties of null (reading '' @ [CHR 0x27] @ ''message''
     @ [CHR 0x27] @ '')''"

text \<open>
  The message of the TypeError that a conversion throws on a value that has no string
  (the wording of V8).
\<close>

definition conversion_message :: string where
  "conversion_message = ''Cannot convert object to primitive value''"

text \<open>\<open>err.message\<close> of what \<open>apiFetch\<close> throws.\<close>

fun error_message :: "api_error \<Rightarrow> string" where
  "error_message (HttpError m s b) = m"
| "error_message (FetchError m) = m"
| "error_message ConversionError = conversion_message"

text \<open>
  The amount in the body of a request, as the server reads it: \<open>JSON.stringify\<close> writes a
  finite number as it is and an infinity or NaN as \<open>null\<close>, which is a missing amount
  (\<open>None\<close>).
\<close>

fun json_number :: "jsnum \<Rightarrow> rat option" where
  "json_number (Num x) = Some x"
| "json_number NegZero = Some 0"
| "json_number n = None"

text \<open>
  \<open>handleAddExpense\<close>. The server is a parameter: \<open>api amount category srv\<close> is what the
  request \<open>POST /api/add\<close> with the body \<open>{amount, category}\<close> settles to and the state of
  the server after it. The result is the toast, the form and the state of the server;
  the handler touches nothing else but the flag \<open>submitting\<close> and the reload of the data.
  The guard \<open>!amountValue || amountValue <= 0\<close> stops NaN, the two zeros, every negative
  number and the negative infinity.
\<close>

definition handleAddExpense ::
  "host \<Rightarrow> (rat option \<Rightarrow> string \<Rightarrow> 'srv \<Rightarrow> fetch_outcome \<times> 'srv) \<Rightarrow> new_expense \<Rightarrow> 'srv
    \<Rightarrow> toast \<times> new_expense \<times> 'srv" where
  "handleAddExpense h api newExpense srv =
    (let amountValue = string_to_number h (ne_amount newExpense) in
     if \<not> truthy (JNumber amountValue) \<or> le amountValue 0
     then (Toast ToastError (JString ''Enter a positive amount.''), newExpense, srv)
     else if ne_category newExpense = []
     then (Toast ToastError (JString ''Select a category.''), newExpense, srv)
     else (case api (json_number amountValue) (ne_category newExpense) srv of
        (outcome, srv') \<Rightarrow>
         (case apiFetch h outcome of
            Inr payload \<Rightarrow>
             if payload = JNull
             then (Toast ToastError (JString null_read_message), newExpense, srv')
             else (Toast ToastSuccess
                     (js_or (get_property payload ''message'') (JString ''Expense added.'')),
                   newExpense\<lparr>ne_amount := []\<rparr>, srv')
          | Inl err \<Rightarrow>
             (Toast ToastError
                (js_or (JString (error_message err)) (JString ''Failed to add expense.'')),
              newExpense, srv'))))"

text \<open>
  \<open>handleVoiceResponse\<close>, on a response of the shape the specification gives. First the
  budget warning: \<open>data.budget_alert\<close> when truthy, else the first of
  \<open>data.dashboard.budget_alerts\<close>, else nothing unless the response is an error, which
  leaves the warning as it was.
\<close>

definition is_error_response :: "voice_response \<Rightarrow> bool" where
  "is_error_response data = ((case error data of Some e \<Rightarrow> e \<noteq> [] | None \<Rightarrow> False) \<or> \<not> success data)"

definition budget_warning_after :: "string option \<Rightarrow> voice_response \<Rightarrow> string option" where
  "budget_warning_after budgetWarning data =
    (if (case budget_alert data of Some a \<Rightarrow> a \<noteq> [] | None \<Rightarrow> False) then budget_alert data
     else (case (case dashboard data of Some d \<Rightarrow> budget_alerts d | None \<Rightarrow> []) of
         a # as \<Rightarrow> Some a
       | [] \<Rightarrow> if \<not> is_error_response data then None else budgetWarning))"

text \<open>
  Then the confirmation: with \<open>needs_confirmation\<close> and a non-empty list of options the
  handler opens the dialog (title, message, options) and returns before it applies any
  snapshot; \<open>None\<close> when it does not open it.
\<close>

definition voice_confirm_after ::
  "voice_response \<Rightarrow> (string \<times> string \<times> (string \<times> string) list) option" where
  "voice_confirm_after data =
    (let replyMessage = (if reply data \<noteq> [] then reply data else ''Command processed.'') in
     case options data of
       None \<Rightarrow> None
     | Some opts \<Rightarrow>
        if needs_confirmation data \<and> opts \<noteq> []
        then Some ((case confirmation_prompt data of
                      None \<Rightarrow> ''Please confirm your command''
                    | Some t \<Rightarrow> if t \<noteq> [] then t else ''Please confirm your command''),
                   replyMessage, opts)
        else None)"

text \<open>
  \<open>handleVoiceConfirmSelect\<close>, on the entry the dialog passes (one that
  \<open>normalizeOption\<close> made): the command it sends next, \<open>None\<close> when it sends none
  ("Command cancelled.", or \<open>String(followupCommand)\<close> throws, which the handler catches).
  The command is the first truthy of the entry's \<open>value\<close>, \<open>command\<close>, \<open>text\<close> and
  \<open>label\<close>, else the entry itself, converted to a string.
\<close>

definition entry_object :: "normalized_option \<Rightarrow> jsval" where
  "entry_object option =
    JObject ([(''key'', opt_key option), (''label'', opt_label option)]
             @ (case opt_value option of Some v \<Rightarrow> [(''value'', v)] | None \<Rightarrow> []))"

definition handleVoiceConfirmSelect :: "host \<Rightarrow> normalized_option \<Rightarrow> string option" where
  "handleVoiceConfirmSelect h option =
    (let entry = entry_object option;
         followupCommand =
           js_or (get_property entry ''value'')
             (js_or (get_property entry ''command'')
               (js_or (get_property entry ''text'')
                 (js_or (get_property entry ''label'') entry)))
     in if \<not> truthy followupCommand
           \<or> (case followupCommand of JString s \<Rightarrow> trim s = [] | _ \<Rightarrow> False)
        then None
        else to_string h followupCommand)"

section \<open>Properties of the engine and of the handlers\<close>

text \<open>A sample deployment, for the concrete instances below.\<close>

definition sample_catalog :: catalog where
  "sample_catalog =
    [\<lparr>cat_key = ''food'', cat_synonyms = [''meal''], cat_limit = Some 100\<rparr>,
     \<lparr>cat_key = ''transport'', cat_synonyms = [''cab''], cat_limit = Some 200\<rparr>,
     \<lparr>cat_key = ''fun'', cat_synonyms = [], cat_limit = Some 100\<rparr>,
     \<lparr>cat_key = ''gifts'', cat_synonyms = [], cat_limit = None\<rparr>]"

text \<open>
  A parser for the instances: the words of the transcript; \<open>Add n to f\<close> with a whole
  number \<open>n\<close> (a minus sign before it or not) is an Add of \<open>n\<close> to the fragment \<open>f\<close>, and
  \<open>Add to f\<close> is an Add with no amount.
\<close>

definition sample_words :: "string \<Rightarrow> string list" where
  "sample_words s =
    filter (\<lambda>w. w \<noteq> [])
      (foldr (\<lambda>c acc. if c = CHR '' '' then [] # acc
                       else (case acc of [] \<Rightarrow> [[c]] | w # ws \<Rightarrow> (c # w) # ws)) s [])"

definition sample_digits :: "string \<Rightarrow> rat option" where
  "sample_digits ds =
    (if ds \<noteq> [] \<and> list_all (\<lambda>c. c \<in> set ''0123456789'') ds
     then Some (of_nat (foldl (\<lambda>n c. 10 * n + (of_char c - 48)) 0 ds))
     else None)"

definition sample_amount :: "string \<Rightarrow> rat option" where
  "sample_amount w =
    (case w of
       [] \<Rightarrow> None
     | c # cs \<Rightarrow> if c = CHR ''-'' then map_option uminus (sample_digits cs)
                 else sample_digits (c # cs))"

definition sample_parse :: "string \<Rightarrow> intent" where
  "sample_parse t =
    (let ws = sample_words t in
     if length ws = 4 \<and> ws ! 0 = ''Add'' \<and> ws ! 2 = ''to''
     then (case sample_amount (ws ! 1) of
             Some a \<Rightarrow> Add (Some a) (Some (ws ! 3))
           | None \<Rightarrow> Unknown t)
     else if length ws = 3 \<and> ws ! 0 = ''Add'' \<and> ws ! 1 = ''to''
     then Add None (Some (ws ! 2))
     else if ws = [''Delete'', ''last'', ''expense''] then DeleteLast
     else if ws = [''Show'', ''recent'', ''expenses''] then ShowRecent
     else Unknown t)"


text \<open>A lookup that accepts a key or synonym of which the fragment is a beginning.\<close>

definition sample_candidates :: "catalog \<Rightarrow> string \<Rightarrow> string list" where
  "sample_candidates cat f =
    map cat_key
      (filter (\<lambda>c. list_ex (\<lambda>w. take (length f) w = f) (cat_key c # cat_synonyms c)) cat)"

definition sample_stages :: stages where
  "sample_stages =
    \<lparr>st_parse = sample_parse, st_candidates = sample_candidates,
     st_in_period = (\<lambda>p today d. d = today), st_summary = (\<lambda>p l. ''summary''),
     st_chart_series = (\<lambda>today l. []), st_recent_count = 12,
     st_phrase = (\<lambda>a k. ''Add to '' @ k), st_choose_prompt = ''Which one?'',
     st_reply = (\<lambda>out. ''reply''), st_error = (\<lambda>out. ''error''),
     st_alert_text = alert_category\<rparr>"

definition sample_ledger :: ledger where
  "sample_ledger =
    [\<lparr>entry_id = 1, entry_amount = 90, entry_category = ''food'', entry_date = 7,
      entry_time = 0, entry_description = None\<rparr>,
     \<lparr>entry_id = 2, entry_amount = 180, entry_category = ''transport'', entry_date = 7,
      entry_time = 0, entry_description = None\<rparr>,
     \<lparr>entry_id = 3, entry_amount = 150, entry_category = ''fun'', entry_date = 7,
      entry_time = 0, entry_description = None\<rparr>,
     \<lparr>entry_id = 4, entry_amount = 900, entry_category = ''gifts'', entry_date = 7,
      entry_time = 0, entry_description = None\<rparr>]"

lemma sample_parse_values:
  "sample_parse ''Add 500 to food'' = Add (Some 500) (Some ''food'')"
  "sample_parse ''Add 300 to xyz'' = Add (Some 300) (Some ''xyz'')"
  "sample_parse ''Add 5 to f'' = Add (Some 5) (Some ''f'')"
  "sample_parse ''Add 0 to xyz'' = Add (Some 0) (Some ''xyz'')"
  "sample_parse ''Add -5 to f'' = Add (Some (- 5)) (Some ''f'')"
  "sample_parse ''Add to xyz'' = Add None (Some ''xyz'')"
  "sample_parse ''Show recent expenses'' = ShowRecent"
  by (simp_all add: sample_parse_def sample_words_def sample_amount_def sample_digits_def Let_def)

subsection \<open>The order of the alerts\<close>

definition descending :: "alert list \<Rightarrow> bool" where
  "descending as = sorted_wrt (\<lambda>a b. alert_percentage b \<le> alert_percentage a) as"

lemma set_place_alert: "set (place_alert a bs) = insert a (set bs)"
  by (induction bs) auto

lemma place_alert_descending: "descending bs \<Longrightarrow> descending (place_alert a bs)"
  unfolding descending_def
  by (induction bs) (auto simp: set_place_alert)

lemma order_alerts_snoc: "order_alerts (xs @ [a]) = place_alert a (order_alerts xs)"
  by (simp add: order_alerts_def)

lemma order_alerts_descending: "descending (order_alerts xs)"
proof (induction xs rule: rev_induct)
  case Nil
  then show ?case by (simp add: order_alerts_def descending_def)
next
  case (snoc a xs)
  then show ?case by (simp add: order_alerts_snoc place_alert_descending)
qed

lemma place_alert_ties:
  "descending bs \<Longrightarrow>
   filter (\<lambda>x. alert_percentage x = p) (place_alert a bs)
     = filter (\<lambda>x. alert_percentage x = p) bs @ (if alert_percentage a = p then [a] else [])"
proof (induction bs)
  case Nil
  then show ?case by simp
next
  case (Cons b bs)
  show ?case
  proof (cases "alert_percentage b < alert_percentage a")
    case True
    have "\<forall>x \<in> set (b # bs). alert_percentage x < alert_percentage a"
      using Cons.prems True by (auto simp: descending_def)
    then have "alert_percentage a = p \<Longrightarrow> filter (\<lambda>x. alert_percentage x = p) (b # bs) = []"
      by (auto simp: filter_empty_conv)
    with True show ?thesis
      by auto
  next
    case False
    have "descending bs"
      using Cons.prems by (simp add: descending_def)
    with False Cons.IH show ?thesis
      by simp
  qed
qed

lemma order_alerts_ties:
  "filter (\<lambda>x. alert_percentage x = p) (order_alerts xs) = filter (\<lambda>x. alert_percentage x = p) xs"
proof (induction xs rule: rev_induct)
  case Nil
  then show ?case by (simp add: order_alerts_def)
next
  case (snoc a xs)
  then show ?case
    by (simp add: order_alerts_snoc place_alert_ties [OF order_alerts_descending])
qed

lemma set_order_alerts: "set (order_alerts xs) = set xs"
  by (induction xs rule: rev_induct) (simp_all add: order_alerts_def set_place_alert)

lemma descending_head:
  "descending (a # as) \<Longrightarrow> b \<in> set (a # as) \<Longrightarrow> alert_percentage b \<le> alert_percentage a"
  by (auto simp: descending_def)

lemma handle_command_dashboard:
  assumes "handle_command st cat today time transcript l = (r, l')" "dashboard r = Some d"
  shows "\<exists>out. r = succeeded st cat today out l'"
  using assms
  by (auto simp: handle_command_def failure_def ask_def Let_def
      split: intent.splits resolution.splits option.splits prod.splits)

text \<open>
  Claim C4, on the engine as modelled from the specification: in every response that
  carries a dashboard, the alert strings are those of a list of alerts that stands in
  descending order of percentage, the alerts of equal percentage standing in the order in
  which the catalog declares their categories; the field \<open>budget_alert\<close> is absent when
  that list is empty and is otherwise its first alert, whose percentage no alert of the
  list exceeds.
\<close>

theorem C4_alerts_worst_first:
  assumes "handle_command st cat today time transcript l = (r, l')"
    and "dashboard r = Some d"
  shows "\<exists>as. budget_alerts d = map (st_alert_text st) as
      \<and> descending as
      \<and> (\<forall>p. filter (\<lambda>a. alert_percentage a = p) as
             = filter (\<lambda>a. alert_percentage a = p)
                 (raised_alerts cat (categoryTotals (st_in_period st Month today) l')))
      \<and> budget_alert r = (case as of [] \<Rightarrow> None | a # rest \<Rightarrow> Some (st_alert_text st a))
      \<and> (\<forall>a \<in> set as. alert_percentage a \<le> alert_percentage (hd as))"
proof -
  obtain out where r: "r = succeeded st cat today out l'"
    using handle_command_dashboard [OF assms] by blast
  define as where "as = month_alerts st cat today l'"
  have d: "d = assemble st cat today l'"
    using assms(2) by (simp add: r succeeded_def)
  have 1: "budget_alerts d = map (st_alert_text st) as"
    by (simp add: d assemble_def as_def)
  have 2: "descending as"
    by (simp add: as_def month_alerts_def evaluate_budgets_def order_alerts_descending)
  have 3: "\<forall>p. filter (\<lambda>a. alert_percentage a = p) as
             = filter (\<lambda>a. alert_percentage a = p)
                 (raised_alerts cat (categoryTotals (st_in_period st Month today) l'))"
    by (simp add: as_def month_alerts_def evaluate_budgets_def order_alerts_ties)
  have 4: "budget_alert r = (case as of [] \<Rightarrow> None | a # rest \<Rightarrow> Some (st_alert_text st a))"
    by (simp add: r succeeded_def as_def)
  have 5: "\<forall>a \<in> set as. alert_percentage a \<le> alert_percentage (hd as)"
    using 2 descending_head [of "hd as" "tl as"] by (cases as) auto
  show ?thesis
    using 1 2 3 4 5 by blast
qed


lemma sample_show_recent:
  "handle_command sample_stages sample_catalog 7 0 ''Show recent expenses'' sample_ledger
     = (succeeded sample_stages sample_catalog 7 Listed sample_ledger, sample_ledger)"
  by (simp add: handle_command_def sample_stages_def sample_parse_values)

lemma sample_month_alerts:
  "month_alerts sample_stages sample_catalog 7 sample_ledger =
     [\<lparr>alert_category = ''fun'', alert_percentage = 150, alert_severity = OverBudget\<rparr>,
      \<lparr>alert_category = ''food'', alert_percentage = 90, alert_severity = Warning\<rparr>,
      \<lparr>alert_category = ''transport'', alert_percentage = 90, alert_severity = Warning\<rparr>]"
  by (simp add: month_alerts_def evaluate_budgets_def raised_alerts_def order_alerts_def
      categoryTotals_def category_total_def sample_stages_def sample_catalog_def
      sample_ledger_def alert_for_def Let_def)

theorem C4_alerts_worst_first_witness:
  "budget_alerts (assemble sample_stages sample_catalog 7 sample_ledger)
     = [''fun'', ''food'', ''transport'']
   \<and> budget_alert (succeeded sample_stages sample_catalog 7 Listed sample_ledger) = Some ''fun''
   \<and> (\<exists>as. budget_alerts (assemble sample_stages sample_catalog 7 sample_ledger)
             = map (st_alert_text sample_stages) as
        \<and> descending as
        \<and> budget_alert (succeeded sample_stages sample_catalog 7 Listed sample_ledger)
             = (case as of [] \<Rightarrow> None | a # rest \<Rightarrow> Some (st_alert_text sample_stages a)))"
proof -
  have d: "dashboard (succeeded sample_stages sample_catalog 7 Listed sample_ledger)
        = Some (assemble sample_stages sample_catalog 7 sample_ledger)"
    by (simp add: succeeded_def)
  have a: "budget_alerts (assemble sample_stages sample_catalog 7 sample_ledger)
     = [''fun'', ''food'', ''transport'']"
    by (simp add: assemble_def sample_month_alerts) (simp add: sample_stages_def)
  have b: "budget_alert (succeeded sample_stages sample_catalog 7 Listed sample_ledger) = Some ''fun''"
    by (simp add: succeeded_def sample_month_alerts) (simp add: sample_stages_def)
  show ?thesis
    using C4_alerts_worst_first [OF sample_show_recent d] a b by blast
qed

text \<open>
  The dashboard's handler agrees with the engine: on a response that carries a dashboard
  it shows the first alert of the list, or none when the list is empty.
\<close>

lemma budget_warning_after_succeeded:
  "budget_warning_after w (succeeded st cat today out l)
     = (case month_alerts st cat today l of [] \<Rightarrow> None | a # as \<Rightarrow> Some (st_alert_text st a))"
  by (cases "month_alerts st cat today l")
    (simp_all add: budget_warning_after_def succeeded_def assemble_def is_error_response_def)

subsection \<open>Ambiguous categories\<close>

lemma candidate_keys_several:
  "length (candidate_keys st cat f) \<noteq> 1 \<Longrightarrow> candidate_keys st cat f \<noteq> [] \<Longrightarrow>
   \<exists>k k' ks. candidate_keys st cat f = k # k' # ks"
  by (cases "candidate_keys st cat f" rule: list.exhaust) (auto simp: neq_Nil_conv)

text \<open>
  Claim C5, as stated, on the engine as modelled from the specification: every command
  whose fragment resolves to no candidate or to several is answered with a confirmation
  and no error. A command whose amount is missing or not positive fails at once with a
  validation error and offers no confirmation, whatever its fragment resolves to: so do
  "Add 0 to xyz" (no candidate), "Add -5 to f" (two candidates) and "Add to xyz" (no
  amount).
\<close>

theorem C5_invalid_amount_counterexample:
  "\<not> (\<forall>st cat today time transcript l amount f.
        st_parse st transcript = Add amount (Some f) \<longrightarrow>
        length (candidate_keys st cat f) \<noteq> 1 \<longrightarrow>
        error (fst (handle_command st cat today time transcript l)) = None
        \<and> needs_confirmation (fst (handle_command st cat today time transcript l)))
   \<and> candidate_keys sample_stages sample_catalog ''xyz'' = []
   \<and> candidate_keys sample_stages sample_catalog ''f'' = [''food'', ''fun'']
   \<and> st_parse sample_stages ''Add 0 to xyz'' = Add (Some 0) (Some ''xyz'')
   \<and> st_parse sample_stages ''Add -5 to f'' = Add (Some (- 5)) (Some ''f'')
   \<and> st_parse sample_stages ''Add to xyz'' = Add None (Some ''xyz'')
   \<and> handle_command sample_stages sample_catalog 7 0 ''Add 0 to xyz'' sample_ledger
       = (failure sample_stages InvalidAmount, sample_ledger)
   \<and> handle_command sample_stages sample_catalog 7 0 ''Add -5 to f'' sample_ledger
       = (failure sample_stages InvalidAmount, sample_ledger)
   \<and> handle_command sample_stages sample_catalog 7 0 ''Add to xyz'' sample_ledger
       = (failure sample_stages InvalidAmount, sample_ledger)
   \<and> error (failure sample_stages InvalidAmount) = Some ''error''
   \<and> \<not> needs_confirmation (failure sample_stages InvalidAmount)
   \<and> options (failure sample_stages InvalidAmount) = None"
proof -
  have z: "candidate_keys sample_stages sample_catalog ''xyz'' = []"
    and m: "candidate_keys sample_stages sample_catalog ''f'' = [''food'', ''fun'']"
    by (simp_all add: candidate_keys_def sample_stages_def sample_candidates_def sample_catalog_def)
  have p: "st_parse sample_stages ''Add 0 to xyz'' = Add (Some 0) (Some ''xyz'')"
    "st_parse sample_stages ''Add -5 to f'' = Add (Some (- 5)) (Some ''f'')"
    "st_parse sample_stages ''Add to xyz'' = Add None (Some ''xyz'')"
    by (simp_all add: sample_stages_def sample_parse_values)
  have h: "handle_command sample_stages sample_catalog 7 0 ''Add 0 to xyz'' sample_ledger
       = (failure sample_stages InvalidAmount, sample_ledger)"
    "handle_command sample_stages sample_catalog 7 0 ''Add -5 to f'' sample_ledger
       = (failure sample_stages InvalidAmount, sample_ledger)"
    "handle_command sample_stages sample_catalog 7 0 ''Add to xyz'' sample_ledger
       = (failure sample_stages InvalidAmount, sample_ledger)"
    by (simp_all add: handle_command_def resolve_add_def p)
  have f: "error (failure sample_stages InvalidAmount) = Some ''error''"
    "\<not> needs_confirmation (failure sample_stages InvalidAmount)"
    "options (failure sample_stages InvalidAmount) = None"
    by (simp_all add: failure_def sample_stages_def)
  have "\<not> (\<forall>st cat today time transcript l amount f.
        st_parse st transcript = Add amount (Some f) \<longrightarrow>
        length (candidate_keys st cat f) \<noteq> 1 \<longrightarrow>
        error (fst (handle_command st cat today time transcript l)) = None
        \<and> needs_confirmation (fst (handle_command st cat today time transcript l)))"
  proof
    assume "\<forall>st cat today time transcript l amount f.
        st_parse st transcript = Add amount (Some f) \<longrightarrow>
        length (candidate_keys st cat f) \<noteq> 1 \<longrightarrow>
        error (fst (handle_command st cat today time transcript l)) = None
        \<and> needs_confirmation (fst (handle_command st cat today time transcript l))"
    then have "st_parse sample_stages ''Add 0 to xyz'' = Add (Some 0) (Some ''xyz'') \<longrightarrow>
        length (candidate_keys sample_stages sample_catalog ''xyz'') \<noteq> 1 \<longrightarrow>
        error (fst (handle_command sample_stages sample_catalog 7 0 ''Add 0 to xyz'' sample_ledger)) = None
        \<and> needs_confirmation (fst (handle_command sample_stages sample_catalog 7 0 ''Add 0 to xyz'' sample_ledger))"
      by blast
    then show False
      by (simp add: p z h f)
  qed
  then show ?thesis
    using z m p h f by blast
qed

text \<open>
  Claim C5, amended: for every command that parses to an Add whose category fragment
  resolves to zero or to several candidates, the amount decides. With a positive amount
  the response is not an error: it carries \<open>needs_confirmation\<close>, a prompt and the
  options, and the ledger is unchanged; with no candidate the prompt is "Which category
  did you mean?" and the options are all catalog categories, in declaration order (a
  non-empty list unless the catalog is empty); with several candidates the options are
  the candidates. With a missing or non-positive amount the response is the validation
  error: it offers no confirmation and no options, and the ledger is unchanged.
\<close>

theorem C5_ambiguity_asks:
  assumes "st_parse st transcript = Add amount (Some f)"
    and "length (candidate_keys st cat f) \<noteq> 1"
  shows "(\<forall>a. amount = Some a \<and> 0 < a \<longrightarrow>
      snd (handle_command st cat today time transcript l) = l
      \<and> error (fst (handle_command st cat today time transcript l)) = None
      \<and> success (fst (handle_command st cat today time transcript l))
      \<and> needs_confirmation (fst (handle_command st cat today time transcript l))
      \<and> dashboard (fst (handle_command st cat today time transcript l)) = None
      \<and> (if candidate_keys st cat f = []
          then confirmation_prompt (fst (handle_command st cat today time transcript l))
                 = Some ''Which category did you mean?''
             \<and> options (fst (handle_command st cat today time transcript l))
                 = Some (options_for st a (map cat_key cat))
             \<and> map fst (options_for st a (map cat_key cat)) = map cat_key cat
             \<and> (options_for st a (map cat_key cat) = []) = (cat = [])
          else confirmation_prompt (fst (handle_command st cat today time transcript l))
                 = Some (st_choose_prompt st)
             \<and> options (fst (handle_command st cat today time transcript l))
                 = Some (options_for st a (candidate_keys st cat f))
             \<and> map fst (options_for st a (candidate_keys st cat f)) = candidate_keys st cat f
             \<and> options_for st a (candidate_keys st cat f) \<noteq> []))
    \<and> (amount = None \<or> (\<exists>a. amount = Some a \<and> a \<le> 0) \<longrightarrow>
      handle_command st cat today time transcript l = (failure st InvalidAmount, l)
      \<and> error (fst (handle_command st cat today time transcript l))
           = Some (st_error st InvalidAmount)
      \<and> \<not> success (fst (handle_command st cat today time transcript l))
      \<and> \<not> needs_confirmation (fst (handle_command st cat today time transcript l))
      \<and> confirmation_prompt (fst (handle_command st cat today time transcript l)) = None
      \<and> options (fst (handle_command st cat today time transcript l)) = None)"
proof -
  have pos: "snd (handle_command st cat today time transcript l) = l
      \<and> error (fst (handle_command st cat today time transcript l)) = None
      \<and> success (fst (handle_command st cat today time transcript l))
      \<and> needs_confirmation (fst (handle_command st cat today time transcript l))
      \<and> dashboard (fst (handle_command st cat today time transcript l)) = None
      \<and> (if candidate_keys st cat f = []
          then confirmation_prompt (fst (handle_command st cat today time transcript l))
                 = Some ''Which category did you mean?''
             \<and> options (fst (handle_command st cat today time transcript l))
                 = Some (options_for st a (map cat_key cat))
             \<and> map fst (options_for st a (map cat_key cat)) = map cat_key cat
             \<and> (options_for st a (map cat_key cat) = []) = (cat = [])
          else confirmation_prompt (fst (handle_command st cat today time transcript l))
                 = Some (st_choose_prompt st)
             \<and> options (fst (handle_command st cat today time transcript l))
                 = Some (options_for st a (candidate_keys st cat f))
             \<and> map fst (options_for st a (candidate_keys st cat f)) = candidate_keys st cat f
             \<and> options_for st a (candidate_keys st cat f) \<noteq> [])"
    if a: "amount = Some a \<and> 0 < a" for a
  proof (cases "candidate_keys st cat f = []")
    case True
    then have "handle_command st cat today time transcript l
        = (ask st ''Which category did you mean?'' (options_for st a (map cat_key cat)), l)"
      using assms a by (simp add: handle_command_def resolve_add_def)
    with True show ?thesis
      by (simp add: ask_def options_for_def comp_def)
  next
    case False
    then obtain k k' ks where ks: "candidate_keys st cat f = k # k' # ks"
      using candidate_keys_several [OF assms(2)] by blast
    then have "handle_command st cat today time transcript l
        = (ask st (st_choose_prompt st) (options_for st a (candidate_keys st cat f)), l)"
      using assms a by (simp add: handle_command_def resolve_add_def)
    with False ks show ?thesis
      by (simp add: ask_def options_for_def comp_def)
  qed
  have neg: "handle_command st cat today time transcript l = (failure st InvalidAmount, l)
      \<and> error (fst (handle_command st cat today time transcript l))
           = Some (st_error st InvalidAmount)
      \<and> \<not> success (fst (handle_command st cat today time transcript l))
      \<and> \<not> needs_confirmation (fst (handle_command st cat today time transcript l))
      \<and> confirmation_prompt (fst (handle_command st cat today time transcript l)) = None
      \<and> options (fst (handle_command st cat today time transcript l)) = None"
    if b: "amount = None \<or> (\<exists>a. amount = Some a \<and> a \<le> 0)"
  proof -
    have "resolve_add st cat amount (Some f) = ValidationError"
      using b by (auto simp: resolve_add_def)
    then have "handle_command st cat today time transcript l = (failure st InvalidAmount, l)"
      using assms(1) by (simp add: handle_command_def)
    then show ?thesis
      by (simp add: failure_def)
  qed
  show ?thesis
    using pos neg by blast
qed

theorem C5_ambiguity_asks_witness:
  "handle_command sample_stages sample_catalog 7 0 ''Add 300 to xyz'' sample_ledger
     = (ask sample_stages ''Which category did you mean?''
          [(''food'', ''Add to food''), (''transport'', ''Add to transport''),
           (''fun'', ''Add to fun''), (''gifts'', ''Add to gifts'')], sample_ledger)
   \<and> handle_command sample_stages sample_catalog 7 0 ''Add 5 to f'' sample_ledger
     = (ask sample_stages ''Which one?'' [(''food'', ''Add to food''), (''fun'', ''Add to fun'')],
        sample_ledger)
   \<and> snd (handle_command sample_stages sample_catalog 7 0 ''Add 300 to xyz'' sample_ledger)
     = sample_ledger
   \<and> needs_confirmation
       (fst (handle_command sample_stages sample_catalog 7 0 ''Add 5 to f'' sample_ledger))
   \<and> handle_command sample_stages sample_catalog 7 0 ''Add -5 to f'' sample_ledger
     = (failure sample_stages InvalidAmount, sample_ledger)
   \<and> handle_command sample_stages sample_catalog 7 0 ''Add to xyz'' sample_ledger
     = (failure sample_stages InvalidAmount, sample_ledger)"
proof -
  have p: "st_parse sample_stages ''Add 300 to xyz'' = Add (Some 300) (Some ''xyz'')"
    and q: "st_parse sample_stages ''Add 5 to f'' = Add (Some 5) (Some ''f'')"
    and n: "st_parse sample_stages ''Add -5 to f'' = Add (Some (- 5)) (Some ''f'')"
    and o: "st_parse sample_stages ''Add to xyz'' = Add None (Some ''xyz'')"
    by (simp_all add: sample_stages_def sample_parse_values)
  have z: "candidate_keys sample_stages sample_catalog ''xyz'' = []"
    and m: "candidate_keys sample_stages sample_catalog ''f'' = [''food'', ''fun'']"
    by (simp_all add: candidate_keys_def sample_stages_def sample_candidates_def sample_catalog_def)
  have lz: "length (candidate_keys sample_stages sample_catalog ''xyz'') \<noteq> 1"
    and lm: "length (candidate_keys sample_stages sample_catalog ''f'') \<noteq> 1"
    by (simp_all add: z m)
  have a: "handle_command sample_stages sample_catalog 7 0 ''Add 300 to xyz'' sample_ledger
     = (ask sample_stages ''Which category did you mean?''
          [(''food'', ''Add to food''), (''transport'', ''Add to transport''),
           (''fun'', ''Add to fun''), (''gifts'', ''Add to gifts'')], sample_ledger)"
    by (simp add: handle_command_def resolve_add_def p z options_for_def)
      (simp add: sample_stages_def sample_catalog_def)
  have b: "handle_command sample_stages sample_catalog 7 0 ''Add 5 to f'' sample_ledger
     = (ask sample_stages ''Which one?'' [(''food'', ''Add to food''), (''fun'', ''Add to fun'')],
        sample_ledger)"
    by (simp add: handle_command_def resolve_add_def q m options_for_def)
      (simp add: sample_stages_def)
  have c: "snd (handle_command sample_stages sample_catalog 7 0 ''Add 300 to xyz'' sample_ledger)
     = sample_ledger"
    using C5_ambiguity_asks [OF p lz, where l = sample_ledger and today = 7 and time = 0] by simp
  have d: "needs_confirmation
       (fst (handle_command sample_stages sample_catalog 7 0 ''Add 5 to f'' sample_ledger))"
    using C5_ambiguity_asks [OF q lm, where l = sample_ledger and today = 7 and time = 0] by simp
  have e: "handle_command sample_stages sample_catalog 7 0 ''Add -5 to f'' sample_ledger
     = (failure sample_stages InvalidAmount, sample_ledger)"
    using C5_ambiguity_asks [OF n lm, where l = sample_ledger and today = 7 and time = 0] by simp
  have g: "handle_command sample_stages sample_catalog 7 0 ''Add to xyz'' sample_ledger
     = (failure sample_stages InvalidAmount, sample_ledger)"
    using C5_ambiguity_asks [OF o lz, where l = sample_ledger and today = 7 and time = 0] by simp
  show ?thesis
    using a b c d e g by blast
qed

text \<open>
  The dashboard's handler opens the dialog on such a response, under the prompt, unless
  the list of options is empty.
\<close>

lemma voice_confirm_after_ask:
  "voice_confirm_after (ask st prompt opts) =
     (if opts = [] then None
      else Some (if prompt \<noteq> [] then prompt else ''Please confirm your command'',
                 if st_reply st NeedCategory \<noteq> [] then st_reply st NeedCategory
                 else ''Command processed.'', opts))"
  by (simp add: voice_confirm_after_def ask_def)

text \<open>
  When the user picks an option of the engine, \<open>{label, value}\<close> with a value that is
  not blank, the client sends that value, letter for letter, as the next command.
\<close>

lemma confirm_select_sends_value:
  assumes "trim v \<noteq> []"
  shows "\<exists>r. normalizeOption h (JObject [(''label'', JString lab), (''value'', JString v)]) = Some r
           \<and> handleVoiceConfirmSelect h r = Some v"
proof -
  have "v \<noteq> []"
    using assms by (auto simp: trim_def)
  then show ?thesis
    using assms
    by (simp add: handleVoiceConfirmSelect_def normalizeOption_def entry_object_def Let_def
        js_or_def js_or_else_def nullish_def)
qed

subsection \<open>Manual add\<close>

lemma apiFetch_ok_object:
  "apiFetch h (Responded \<lparr>resp_status = 200, resp_json = Some v\<rparr>) = Inr v"
  by (simp add: apiFetch_def resp_ok_def)

lemma apiFetch_error_string:
  "apiFetch h (Responded \<lparr>resp_status = 400, resp_json = Some (JObject [(''error'', JString m)])\<rparr>)
     = Inl (HttpError (if m \<noteq> [] then m else ''Request failed: 400'') 400
              (JObject [(''error'', JString m)]))"
  by (simp add: apiFetch_def resp_ok_def js_or_def js_and_def show_nat.simps digit_char_def)

text \<open>
  Claim C6. The form's handler rejects an amount that reads as NaN, as a zero (an empty
  field reads as zero), as a negative number or as the negative infinity with the error
  "Enter a positive amount." and sends no request: the server is not reached and the
  ledger is as before. The engine's manual add, as modelled from the specification,
  rejects a missing or non-positive amount with \<open>{error}\<close> and a 4xx status (no
  confirmation is part of the response) and leaves the ledger unchanged. For a positive
  amount and a category of the catalog the request succeeds: the expense is appended to
  the ledger and the handler shows the message of the response as a success. An amount
  that reads as the positive infinity passes the handler, travels as \<open>null\<close>, and is
  rejected by the engine as a missing amount: the handler shows the error, and the ledger
  is as before.
\<close>

theorem C6_manual_add_validation:
  "(string_to_number h (ne_amount f) = NaN
      \<or> string_to_number h (ne_amount f) = NegZero
      \<or> string_to_number h (ne_amount f) = NegInf
      \<or> (\<exists>x. string_to_number h (ne_amount f) = Num x \<and> x \<le> 0) \<longrightarrow>
      handleAddExpense h api f srv
        = (Toast ToastError (JString ''Enter a positive amount.''), f, srv))
   \<and> (amount = None \<or> (\<exists>x. amount = Some x \<and> x \<le> 0) \<longrightarrow>
      manual_add st cat today time amount c l
        = (Responded \<lparr>resp_status = 400,
             resp_json = Some (JObject [(''error'', JString (st_error st InvalidAmount))])\<rparr>, l))
   \<and> (string_to_number h (ne_amount f) = Num a \<and> 0 < a \<and> ne_category f \<noteq> []
        \<and> ne_category f \<in> set (map cat_key cat) \<longrightarrow>
      handleAddExpense h (manual_add st cat today time) f l
        = (Toast ToastSuccess
             (js_or (JString (st_reply st (Added
                \<lparr>entry_id = next_id l, entry_amount = a, entry_category = ne_category f,
                 entry_date = today, entry_time = time, entry_description = None\<rparr>)))
               (JString ''Expense added.'')),
           f\<lparr>ne_amount := []\<rparr>,
           l @ [\<lparr>entry_id = next_id l, entry_amount = a, entry_category = ne_category f,
                 entry_date = today, entry_time = time, entry_description = None\<rparr>]))
   \<and> (string_to_number h (ne_amount f) = PosInf \<and> ne_category f \<noteq> [] \<longrightarrow>
      handleAddExpense h (manual_add st cat today time) f l
        = (Toast ToastError
             (JString (if st_error st InvalidAmount \<noteq> [] then st_error st InvalidAmount
                       else ''Request failed: 400'')),
           f, l))"
proof -
  have 1: "string_to_number h (ne_amount f) = NaN
      \<or> string_to_number h (ne_amount f) = NegZero
      \<or> string_to_number h (ne_amount f) = NegInf
      \<or> (\<exists>x. string_to_number h (ne_amount f) = Num x \<and> x \<le> 0) \<longrightarrow>
      handleAddExpense h api f srv
        = (Toast ToastError (JString ''Enter a positive amount.''), f, srv)"
    by (auto simp: handleAddExpense_def is_zero_def)
  have 2: "amount = None \<or> (\<exists>x. amount = Some x \<and> x \<le> 0) \<longrightarrow>
      manual_add st cat today time amount c l
        = (Responded \<lparr>resp_status = 400,
             resp_json = Some (JObject [(''error'', JString (st_error st InvalidAmount))])\<rparr>, l)"
    by (auto simp: manual_add_def)
  have 3: "string_to_number h (ne_amount f) = Num a \<and> 0 < a \<and> ne_category f \<noteq> []
        \<and> ne_category f \<in> set (map cat_key cat) \<longrightarrow>
      handleAddExpense h (manual_add st cat today time) f l
        = (Toast ToastSuccess
             (js_or (JString (st_reply st (Added
                \<lparr>entry_id = next_id l, entry_amount = a, entry_category = ne_category f,
                 entry_date = today, entry_time = time, entry_description = None\<rparr>)))
               (JString ''Expense added.'')),
           f\<lparr>ne_amount := []\<rparr>,
           l @ [\<lparr>entry_id = next_id l, entry_amount = a, entry_category = ne_category f,
                 entry_date = today, entry_time = time, entry_description = None\<rparr>])"
    by (simp add: handleAddExpense_def manual_add_def Let_def ledger_append_def
        apiFetch_ok_object is_zero_def)
  have 4: "string_to_number h (ne_amount f) = PosInf \<and> ne_category f \<noteq> [] \<longrightarrow>
      handleAddExpense h (manual_add st cat today time) f l
        = (Toast ToastError
             (JString (if st_error st InvalidAmount \<noteq> [] then st_error st InvalidAmount
                       else ''Request failed: 400'')),
           f, l)"
    by (simp add: handleAddExpense_def manual_add_def Let_def apiFetch_error_string is_zero_def
        js_or_def)
  show ?thesis
    using 1 2 3 4 by blast
qed

definition sample_host :: host where
  "sample_host =
    \<lparr>read_number = (\<lambda>s. if s = ''250'' then Num 250 else if s = ''-3'' then Num (- 3)
                         else if s = ''-0'' then NegZero else if s = ''1e999'' then PosInf
                         else NaN),
     show_number = (\<lambda>r. ''0''),
     round_hundredths = (\<lambda>x. nat \<lfloor>x * 100 + 1 / 2\<rfloor>)\<rparr>"

theorem C6_manual_add_validation_witness:
  "handleAddExpense sample_host (manual_add sample_stages sample_catalog 7 0)
       \<lparr>ne_amount = [], ne_category = ''food''\<rparr> sample_ledger
     = (Toast ToastError (JString ''Enter a positive amount.''),
        \<lparr>ne_amount = [], ne_category = ''food''\<rparr>, sample_ledger)
   \<and> handleAddExpense sample_host (manual_add sample_stages sample_catalog 7 0)
       \<lparr>ne_amount = ''-3'', ne_category = ''food''\<rparr> sample_ledger
     = (Toast ToastError (JString ''Enter a positive amount.''),
        \<lparr>ne_amount = ''-3'', ne_category = ''food''\<rparr>, sample_ledger)
   \<and> handleAddExpense sample_host (manual_add sample_stages sample_catalog 7 0)
       \<lparr>ne_amount = ''-0'', ne_category = ''food''\<rparr> sample_ledger
     = (Toast ToastError (JString ''Enter a positive amount.''),
        \<lparr>ne_amount = ''-0'', ne_category = ''food''\<rparr>, sample_ledger)
   \<and> manual_add sample_stages sample_catalog 7 0 (Some 0) ''food'' sample_ledger
     = (Responded \<lparr>resp_status = 400,
          resp_json = Some (JObject [(''error'', JString ''error'')])\<rparr>, sample_ledger)
   \<and> handleAddExpense sample_host (manual_add sample_stages sample_catalog 7 0)
       \<lparr>ne_amount = ''250'', ne_category = ''food''\<rparr> sample_ledger
     = (Toast ToastSuccess (JString ''reply''), \<lparr>ne_amount = [], ne_category = ''food''\<rparr>,
        sample_ledger @ [\<lparr>entry_id = 5, entry_amount = 250, entry_category = ''food'',
           entry_date = 7, entry_time = 0, entry_description = None\<rparr>])
   \<and> handleAddExpense sample_host (manual_add sample_stages sample_catalog 7 0)
       \<lparr>ne_amount = ''1e999'', ne_category = ''food''\<rparr> sample_ledger
     = (Toast ToastError (JString ''error''),
        \<lparr>ne_amount = ''1e999'', ne_category = ''food''\<rparr>, sample_ledger)"
proof -
  have e: "string_to_number sample_host [] = Num 0"
    and n: "string_to_number sample_host ''-3'' = Num (- 3)"
    and z: "string_to_number sample_host ''-0'' = NegZero"
    and p: "string_to_number sample_host ''250'' = Num 250"
    and i: "string_to_number sample_host ''1e999'' = PosInf"
    by (simp_all add: string_to_number_def trim_def is_space_def sample_host_def)
  have k: "''food'' \<in> set (map cat_key sample_catalog)"
    by (simp add: sample_catalog_def)
  have j: "next_id sample_ledger = 5"
    by (simp add: next_id_def sample_ledger_def)
  have s: "st_reply sample_stages out = ''reply''" "st_error sample_stages out = ''error''" for out
    by (simp_all add: sample_stages_def)
  show ?thesis
    using C6_manual_add_validation [where h = sample_host
        and f = "\<lparr>ne_amount = [], ne_category = ''food''\<rparr>"
        and api = "manual_add sample_stages sample_catalog 7 0"
        and srv = sample_ledger and amount = "Some 0" and st = sample_stages
        and cat = sample_catalog and today = 7 and time = 0 and c = "''food''"
        and l = sample_ledger and a = 1]
      C6_manual_add_validation [where h = sample_host
        and f = "\<lparr>ne_amount = ''-3'', ne_category = ''food''\<rparr>"
        and api = "manual_add sample_stages sample_catalog 7 0"
        and srv = sample_ledger and amount = "Some 0" and st = sample_stages
        and cat = sample_catalog and today = 7 and time = 0 and c = "''food''"
        and l = sample_ledger and a = 1]
      C6_manual_add_validation [where h = sample_host
        and f = "\<lparr>ne_amount = ''-0'', ne_category = ''food''\<rparr>"
        and api = "manual_add sample_stages sample_catalog 7 0"
        and srv = sample_ledger and amount = "Some 0" and st = sample_stages
        and cat = sample_catalog and today = 7 and time = 0 and c = "''food''"
        and l = sample_ledger and a = 1]
      C6_manual_add_validation [where h = sample_host
        and f = "\<lparr>ne_amount = ''250'', ne_category = ''food''\<rparr>"
        and api = "manual_add sample_stages sample_catalog 7 0"
        and srv = sample_ledger and amount = "Some 0" and st = sample_stages
        and cat = sample_catalog and today = 7 and time = 0 and c = "''food''"
        and l = sample_ledger and a = 250]
      C6_manual_add_validation [where h = sample_host
        and f = "\<lparr>ne_amount = ''1e999'', ne_category = ''food''\<rparr>"
        and api = "manual_add sample_stages sample_catalog 7 0"
        and srv = sample_ledger and amount = "Some 0" and st = sample_stages
        and cat = sample_catalog and today = 7 and time = 0 and c = "''food''"
        and l = sample_ledger and a = 1]
      e n z p i k
    by (simp add: j s js_or_def)
qed

end
